theory Spec2Isabelle
  imports Main
begin

section \<open>RBAC engine: roles, permissions and the static table\<close>

text \<open>
  \<^verbatim>\<open>utils/permissions.py\<close>. \<^verbatim>\<open>Permission\<close> and \<^verbatim>\<open>Role\<close> are \<^verbatim>\<open>(str, Enum)\<close> classes: a closed
  set of members, each with a string value, and a constructor \<^verbatim>\<open>Role(value)\<close> that raises
  \<^verbatim>\<open>ValueError\<close> on any string that is not the value of a member.
\<close>

datatype Permission =
    CREATE_PROJECT | EDIT_PROJECT | DELETE_PROJECT | VIEW_PROJECT
  | CREATE_TASK | EDIT_TASK | DELETE_TASK | VIEW_TASK | ASSIGN_TASK | UPDATE_TASK_STATUS
  | MANAGE_TEAM | ADD_MEMBER | REMOVE_MEMBER | UPDATE_ROLE
  | VIEW_ANALYTICS

datatype Role = OWNER | MANAGER | DEVELOPER | VIEWER

fun role_value :: "Role \<Rightarrow> string" where
  "role_value OWNER = ''owner''"
| "role_value MANAGER = ''manager''"
| "role_value DEVELOPER = ''developer''"
| "role_value VIEWER = ''viewer''"

text \<open>\<^verbatim>\<open>Role(s)\<close>: the member whose value is \<open>s\<close>; \<open>None\<close> stands for the \<^verbatim>\<open>ValueError\<close>.\<close>

definition Role_of_value :: "string \<Rightarrow> Role option" where
  "Role_of_value s =
     (if s = ''owner'' then Some OWNER
      else if s = ''manager'' then Some MANAGER
      else if s = ''developer'' then Some DEVELOPER
      else if s = ''viewer'' then Some VIEWER
      else None)"

text \<open>
  \<^verbatim>\<open>str.lower()\<close> on the ASCII letters. Strings are byte lists here; no code point outside
  ASCII lower-cases to a letter that occurs in a role value, so the bytes of such a code
  point are left as they are.
\<close>

definition char_lower :: "char \<Rightarrow> char" where
  "char_lower c =
     (case map_of (zip ''ABCDEFGHIJKLMNOPQRSTUVWXYZ'' ''abcdefghijklmnopqrstuvwxyz'') c of
        Some l \<Rightarrow> l
      | None \<Rightarrow> c)"

definition str_lower :: "string \<Rightarrow> string" where
  "str_lower s = map char_lower s"

text \<open>The dictionary \<^verbatim>\<open>ROLE_PERMISSIONS\<close>, one list per role, in the order of the source.\<close>

fun ROLE_PERMISSIONS :: "Role \<Rightarrow> Permission list" where
  "ROLE_PERMISSIONS OWNER =
     [CREATE_PROJECT, EDIT_PROJECT, DELETE_PROJECT, VIEW_PROJECT,
      CREATE_TASK, EDIT_TASK, DELETE_TASK, VIEW_TASK, ASSIGN_TASK, UPDATE_TASK_STATUS,
      MANAGE_TEAM, ADD_MEMBER, REMOVE_MEMBER, UPDATE_ROLE, VIEW_ANALYTICS]"
| "ROLE_PERMISSIONS MANAGER =
     [EDIT_PROJECT, VIEW_PROJECT,
      CREATE_TASK, EDIT_TASK, DELETE_TASK, VIEW_TASK, ASSIGN_TASK, UPDATE_TASK_STATUS,
      ADD_MEMBER, VIEW_ANALYTICS]"
| "ROLE_PERMISSIONS DEVELOPER =
     [VIEW_PROJECT, CREATE_TASK, VIEW_TASK, UPDATE_TASK_STATUS]"
| "ROLE_PERMISSIONS VIEWER = [VIEW_PROJECT, VIEW_TASK]"

text \<open>
  \<^verbatim>\<open>check_permission(user_role, required_permission)\<close>. The argument is \<^verbatim>\<open>None\<close> or a
  string; \<^verbatim>\<open>not user_role\<close> holds for \<^verbatim>\<open>None\<close> and for the empty string. The
  \<^verbatim>\<open>except ValueError\<close> branch is the \<open>None\<close> case of \<^const>\<open>Role_of_value\<close>.
\<close>

definition check_permission :: "string option \<Rightarrow> Permission \<Rightarrow> bool" where
  "check_permission user_role required_permission =
     (case user_role of
        None \<Rightarrow> False
      | Some r \<Rightarrow>
          if r = [] then False
          else (case Role_of_value (str_lower r) of
                  Some role_enum \<Rightarrow> required_permission \<in> set (ROLE_PERMISSIONS role_enum)
                | None \<Rightarrow> False))"

text \<open>
  The table of section 4.1 of the specification, written from its rows: the second
  definition of the refinement, to be compared with \<^const>\<open>check_permission\<close>.
\<close>

fun spec_table :: "Role \<Rightarrow> Permission \<Rightarrow> bool" where
  "spec_table r CREATE_PROJECT = (r = OWNER)"
| "spec_table r EDIT_PROJECT = (r = OWNER \<or> r = MANAGER)"
| "spec_table r DELETE_PROJECT = (r = OWNER)"
| "spec_table r VIEW_PROJECT = True"
| "spec_table r CREATE_TASK = (r = OWNER \<or> r = MANAGER \<or> r = DEVELOPER)"
| "spec_table r EDIT_TASK = (r = OWNER \<or> r = MANAGER)"
| "spec_table r DELETE_TASK = (r = OWNER \<or> r = MANAGER)"
| "spec_table r VIEW_TASK = True"
| "spec_table r ASSIGN_TASK = (r = OWNER \<or> r = MANAGER)"
| "spec_table r UPDATE_TASK_STATUS = (r = OWNER \<or> r = MANAGER \<or> r = DEVELOPER)"
| "spec_table r MANAGE_TEAM = (r = OWNER)"
| "spec_table r REMOVE_MEMBER = (r = OWNER)"
| "spec_table r UPDATE_ROLE = (r = OWNER)"
| "spec_table r ADD_MEMBER = (r = OWNER \<or> r = MANAGER)"
| "spec_table r VIEW_ANALYTICS = (r = OWNER \<or> r = MANAGER)"

section \<open>Errors\<close>

text \<open>
  The exception classes of \<^verbatim>\<open>utils/exceptions.py\<close> that the modelled routes raise, with the
  argument the source passes where it is an identifier, a user name or the name of the
  attempted action; free-text messages are left out. \<open>ValueError\<close>, \<open>OverflowError\<close>
  and \<open>ZeroDivisionError\<close> are Python's own, and \<open>ValidationError\<close> is the error that a
  pydantic model raises when it is built from data that do not validate.
\<close>

datatype error =
    ProjectNotFound string
  | TaskNotFound string
  | TeamMemberNotFound string
  | UnauthorizedAccess
  | InsufficientPermissions string
  | InvalidData
  | InvalidRole string
  | CannotRemoveOwner
  | DatabaseException
  | ValueError
  | OverflowError
  | ZeroDivisionError
  | ValidationError

section \<open>The record store\<close>

text \<open>
  The rows that \<^verbatim>\<open>SupabaseDB\<close> returns are dictionaries; each table is a list of rows in
  the order the store returns them. A row carries the columns that the modelled code
  reads or writes. Columns of a task that the code reads with \<^verbatim>\<open>.get\<close> or that an update
  payload can set to null are optional.
\<close>

record project =
  p_id :: string
  owner_id :: string
  progress :: int

record team_member =
  tm_id :: string
  tm_project_id :: string
  tm_username :: string
  tm_role :: string

record task =
  t_id :: string
  t_project_id :: string
  title :: "string option"
  description :: "string option"
  assigned_to :: "string option"
  status :: "string option"
  priority :: "string option"
  created_at :: "string option"
  updated_at :: "string option"

record store =
  projects :: "project list"
  team_members :: "team_member list"
  tasks :: "task list"

text \<open>
  \<^verbatim>\<open>select_by_id\<close>: the first row with the id, or \<^verbatim>\<open>None\<close>. \<^verbatim>\<open>select_where\<close> and
  \<^verbatim>\<open>select_with_filters\<close> are \<^const>\<open>filter\<close> with the equalities of the call.
\<close>

definition select_by_id :: "('r \<Rightarrow> string) \<Rightarrow> 'r list \<Rightarrow> string \<Rightarrow> 'r option" where
  "select_by_id idf rows record_id = find (\<lambda>r. idf r = record_id) rows"

text \<open>
  \<^verbatim>\<open>update(table, record_id, data)\<close>: every row with the id gets the new columns; the first
  one is returned; no such row raises \<^verbatim>\<open>DatabaseException\<close>.
\<close>

definition db_update ::
  "('r \<Rightarrow> string) \<Rightarrow> 'r list \<Rightarrow> string \<Rightarrow> ('r \<Rightarrow> 'r) \<Rightarrow> error + ('r list \<times> 'r)" where
  "db_update idf rows record_id f =
     (case find (\<lambda>r. idf r = record_id) rows of
        None \<Rightarrow> Inl DatabaseException
      | Some r \<Rightarrow> Inr (map (\<lambda>x. if idf x = record_id then f x else x) rows, f r))"

text \<open>\<^verbatim>\<open>insert\<close>: the row, with the fields the server assigns already in it, is appended.\<close>

definition db_insert :: "'r list \<Rightarrow> 'r \<Rightarrow> 'r list" where
  "db_insert rows r = rows @ [r]"

definition db_delete :: "('r \<Rightarrow> string) \<Rightarrow> 'r list \<Rightarrow> string \<Rightarrow> 'r list" where
  "db_delete idf rows record_id = filter (\<lambda>r. idf r \<noteq> record_id) rows"

section \<open>RBAC engine: role resolution and task rules\<close>

definition members_of :: "store \<Rightarrow> string \<Rightarrow> string \<Rightarrow> team_member list" where
  "members_of s project_id username =
     filter (\<lambda>m. tm_project_id m = project_id \<and> tm_username m = username) (team_members s)"

text \<open>
  \<^verbatim>\<open>get_user_role_in_project\<close>. \<^verbatim>\<open>Role.OWNER\<close> is the string \<open>''owner''\<close>. The function has
  no \<^verbatim>\<open>raise\<close>: a missing project makes the first test false and the lookup in
  \<^verbatim>\<open>team_members\<close> goes on.
\<close>

definition get_user_role_in_project :: "store \<Rightarrow> string \<Rightarrow> string \<Rightarrow> string option" where
  "get_user_role_in_project s username project_id =
     (let team_role = (case members_of s project_id username of
                         [] \<Rightarrow> None
                       | m # _ \<Rightarrow> Some (tm_role m))
      in case select_by_id p_id (projects s) project_id of
           Some project \<Rightarrow> if owner_id project = username then Some (role_value OWNER) else team_role
         | None \<Rightarrow> team_role)"

definition is_project_owner :: "store \<Rightarrow> string \<Rightarrow> string \<Rightarrow> bool" where
  "is_project_owner s username project_id =
     (case select_by_id p_id (projects s) project_id of
        None \<Rightarrow> False
      | Some project \<Rightarrow> owner_id project = username)"

definition is_project_member :: "store \<Rightarrow> string \<Rightarrow> string \<Rightarrow> bool" where
  "is_project_member s username project_id =
     (if is_project_owner s username project_id then True
      else get_user_role_in_project s username project_id \<noteq> None)"

text \<open>
  \<^verbatim>\<open>can_edit_task\<close>: \<^verbatim>\<open>not role\<close> holds for \<^verbatim>\<open>None\<close> and the empty string; the comparisons
  with \<^verbatim>\<open>Role\<close> members are string equalities with their values.
\<close>

definition can_edit_task :: "store \<Rightarrow> string \<Rightarrow> string \<Rightarrow> string option \<Rightarrow> bool" where
  "can_edit_task s username project_id task_owner =
     (case get_user_role_in_project s username project_id of
        None \<Rightarrow> False
      | Some role \<Rightarrow>
          if role = [] then False
          else if role \<in> set [role_value OWNER, role_value MANAGER] then True
          else if role = role_value DEVELOPER then task_owner = Some username
          else False)"

definition can_delete_task :: "store \<Rightarrow> string \<Rightarrow> string \<Rightarrow> string option \<Rightarrow> bool" where
  "can_delete_task s username project_id task_owner =
     (case get_user_role_in_project s username project_id of
        None \<Rightarrow> False
      | Some role \<Rightarrow>
          if role = [] then False
          else role \<in> set [role_value OWNER, role_value MANAGER])"

definition can_assign_task :: "store \<Rightarrow> string \<Rightarrow> string \<Rightarrow> bool" where
  "can_assign_task s username project_id =
     check_permission (get_user_role_in_project s username project_id) ASSIGN_TASK"

section \<open>Team member routes\<close>

text \<open>
  \<^verbatim>\<open>routes/roles.py\<close>. The request body \<^verbatim>\<open>TeamMemberAdd\<close> has a user name and a role of the
  enum \<^verbatim>\<open>TeamMemberRole\<close>. A route returns the store as its writes have left it, with the
  error it raises or its response.
\<close>

datatype TeamMemberRole = TM_OWNER | TM_MANAGER | TM_DEVELOPER | TM_VIEWER

fun team_member_role_value :: "TeamMemberRole \<Rightarrow> string" where
  "team_member_role_value TM_OWNER = ''owner''"
| "team_member_role_value TM_MANAGER = ''manager''"
| "team_member_role_value TM_DEVELOPER = ''developer''"
| "team_member_role_value TM_VIEWER = ''viewer''"

record TeamMemberAdd =
  tma_username :: string
  tma_role :: TeamMemberRole

definition verify_project_exists :: "store \<Rightarrow> string \<Rightarrow> error + project" where
  "verify_project_exists s project_id =
     (case select_by_id p_id (projects s) project_id of
        None \<Rightarrow> Inl (ProjectNotFound project_id)
      | Some project \<Rightarrow> Inr project)"

definition validate_role :: "string \<Rightarrow> error + unit" where
  "validate_role role =
     (if str_lower role \<notin> set (map role_value [OWNER, MANAGER, DEVELOPER, VIEWER])
      then Inl (InvalidRole role) else Inr ())"

text \<open>
  \<^verbatim>\<open>add_team_member\<close>. \<open>new_id\<close> is the id the server gives to an inserted row. The
  response model \<^verbatim>\<open>TeamMember\<close> has the four columns of the record, as strings, and the
  timestamp \<^verbatim>\<open>assigned_at\<close>, a column that the server fills and the record leaves out: every
  row of the model validates.
\<close>

definition add_team_member ::
  "store \<Rightarrow> string \<Rightarrow> TeamMemberAdd \<Rightarrow> string \<Rightarrow> string \<Rightarrow> store \<times> (error + team_member)" where
  "add_team_member s project_id member_data current_user new_id =
     (case verify_project_exists s project_id of
        Inl e \<Rightarrow> (s, Inl e)
      | Inr project \<Rightarrow>
          if \<not> is_project_owner s current_user project_id
          then (s, Inl (InsufficientPermissions ''add team members (owner only)''))
          else (case validate_role (team_member_role_value (tma_role member_data)) of
             Inl e \<Rightarrow> (s, Inl e)
           | Inr _ \<Rightarrow>
               if tma_username member_data = owner_id project then (s, Inl InvalidData)
               else (case members_of s project_id (tma_username member_data) of
                  existing_member # _ \<Rightarrow>
                    (case db_update tm_id (team_members s) (tm_id existing_member)
                            (\<lambda>m. m\<lparr>tm_role := team_member_role_value (tma_role member_data)\<rparr>) of
                       Inl e \<Rightarrow> (s, Inl e)
                     | Inr (rows, updated_member) \<Rightarrow>
                         (s\<lparr>team_members := rows\<rparr>, Inr updated_member))
                | [] \<Rightarrow>
                    (let created_member =
                           \<lparr>tm_id = new_id, tm_project_id = project_id,
                            tm_username = tma_username member_data,
                            tm_role = team_member_role_value (tma_role member_data)\<rparr>
                     in (s\<lparr>team_members := db_insert (team_members s) created_member\<rparr>,
                         Inr created_member)))))"

definition update_member_role ::
  "store \<Rightarrow> string \<Rightarrow> string \<Rightarrow> TeamMemberAdd \<Rightarrow> string \<Rightarrow> store \<times> (error + team_member)" where
  "update_member_role s project_id username member_data current_user =
     (case verify_project_exists s project_id of
        Inl e \<Rightarrow> (s, Inl e)
      | Inr project \<Rightarrow>
          if \<not> is_project_owner s current_user project_id
          then (s, Inl (InsufficientPermissions ''update member roles (owner only)''))
          else (case validate_role (team_member_role_value (tma_role member_data)) of
             Inl e \<Rightarrow> (s, Inl e)
           | Inr _ \<Rightarrow>
               if username = owner_id project then (s, Inl InvalidData)
               else (case members_of s project_id username of
                  [] \<Rightarrow> (s, Inl (TeamMemberNotFound username))
                | member # _ \<Rightarrow>
                    (case db_update tm_id (team_members s) (tm_id member)
                            (\<lambda>m. m\<lparr>tm_role := team_member_role_value (tma_role member_data)\<rparr>) of
                       Inl e \<Rightarrow> (s, Inl e)
                     | Inr (rows, updated_member) \<Rightarrow>
                         (s\<lparr>team_members := rows\<rparr>, Inr updated_member)))))"

definition remove_team_member ::
  "store \<Rightarrow> string \<Rightarrow> string \<Rightarrow> string \<Rightarrow> store \<times> (error + unit)" where
  "remove_team_member s project_id username current_user =
     (case verify_project_exists s project_id of
        Inl e \<Rightarrow> (s, Inl e)
      | Inr project \<Rightarrow>
          if \<not> is_project_owner s current_user project_id
          then (s, Inl (InsufficientPermissions ''remove team members (owner only)''))
          else if username = owner_id project then (s, Inl CannotRemoveOwner)
          else (case members_of s project_id username of
             [] \<Rightarrow> (s, Inl (TeamMemberNotFound username))
           | member # _ \<Rightarrow>
               (s\<lparr>team_members := db_delete tm_id (team_members s) (tm_id member)\<rparr>, Inr ())))"

text \<open>
  \<^verbatim>\<open>routes/projects.py\<close> has a second route that adds a member: \<^verbatim>\<open>check_project_access\<close> with
  \<^verbatim>\<open>require_owner=True\<close>, then an insert unless the user has a row already.
\<close>

definition check_project_access :: "store \<Rightarrow> string \<Rightarrow> string \<Rightarrow> bool \<Rightarrow> error + project" where
  "check_project_access s project_id username require_owner =
     (case select_by_id p_id (projects s) project_id of
        None \<Rightarrow> Inl (ProjectNotFound project_id)
      | Some project \<Rightarrow>
          (let is_owner = (owner_id project = username)
           in if require_owner \<and> \<not> is_owner then Inl UnauthorizedAccess
              else if \<not> is_owner \<and>
                      username \<notin> set (map tm_username
                                        (filter (\<lambda>m. tm_project_id m = project_id) (team_members s)))
              then Inl UnauthorizedAccess
              else Inr project))"

definition projects_add_team_member ::
  "store \<Rightarrow> string \<Rightarrow> TeamMemberAdd \<Rightarrow> string \<Rightarrow> string \<Rightarrow> store \<times> (error + team_member)" where
  "projects_add_team_member s project_id team_member current_user new_id =
     (case check_project_access s project_id current_user True of
        Inl e \<Rightarrow> (s, Inl e)
      | Inr _ \<Rightarrow>
          if members_of s project_id (tma_username team_member) \<noteq> [] then (s, Inl InvalidData)
          else (let created_member =
                      \<lparr>tm_id = new_id, tm_project_id = project_id,
                       tm_username = tma_username team_member,
                       tm_role = team_member_role_value (tma_role team_member)\<rparr>
                in (s\<lparr>team_members := db_insert (team_members s) created_member\<rparr>,
                    Inr created_member)))"

section \<open>Python floats\<close>

text \<open>
  The analytics code computes percentages with \<^verbatim>\<open>int((a / b) * 100)\<close>: a true division of
  two ints, a float multiplication and a truncation. Python's floats are IEEE 754 binary64,
  and both operations return the exact result rounded to 53 significant bits, ties to
  even. A non-negative float is modelled by its value \<open>mantissa * 2 ^ exponent\<close>. The
  exponent is not bounded: a list has fewer than \<open>2 ^ 63\<close> elements, so no quotient of
  two counts and no product with 100 leaves the range of the normal numbers.
\<close>

record float64 =
  mantissa :: nat
  exponent :: int

definition float_zero :: float64 where
  "float_zero = \<lparr>mantissa = 0, exponent = 0\<rparr>"

fun bitlen :: "nat \<Rightarrow> nat" where
  "bitlen n = (if n = 0 then 0 else Suc (bitlen (n div 2)))"

declare bitlen.simps [simp del]

text \<open>
  \<open>round_ratio n d\<close> is the fraction \<open>n / d\<close> (both positive) rounded to nearest, ties to
  even: the exponent \<open>e\<close> is chosen so that the quotient by \<open>2 ^ e\<close> has 53 bits, and the
  remainder decides the direction.
\<close>

definition scaled_num :: "nat \<Rightarrow> int \<Rightarrow> nat" where
  "scaled_num n e = n * 2 ^ nat (- e)"

definition scaled_den :: "nat \<Rightarrow> int \<Rightarrow> nat" where
  "scaled_den d e = d * 2 ^ nat e"

definition round_exponent :: "nat \<Rightarrow> nat \<Rightarrow> int" where
  "round_exponent n d =
     (let e0 = int (bitlen n) - int (bitlen d) - 53
      in if scaled_num n e0 div scaled_den d e0 < 2 ^ 53 then e0 else e0 + 1)"

definition round_mantissa :: "nat \<Rightarrow> nat \<Rightarrow> nat" where
  "round_mantissa N D =
     (let q = N div D; r = N mod D
      in if 2 * r < D then q
         else if D < 2 * r then q + 1
         else if even q then q else q + 1)"

definition round_ratio :: "nat \<Rightarrow> nat \<Rightarrow> float64" where
  "round_ratio n d =
     (let e = round_exponent n d
      in \<lparr>mantissa = round_mantissa (scaled_num n e) (scaled_den d e), exponent = e\<rparr>)"

text \<open>\<^verbatim>\<open>float(n)\<close> for an int \<open>n \<ge> 0\<close>, as the mixed multiplication does with \<open>100\<close>.\<close>

definition float_of_nat :: "nat \<Rightarrow> float64" where
  "float_of_nat n = (if n = 0 then float_zero else round_ratio n 1)"

text \<open>\<^verbatim>\<open>a / b\<close> for ints \<open>a \<ge> 0\<close>, \<open>b \<ge> 0\<close>; a zero divisor raises.\<close>

definition py_truediv :: "nat \<Rightarrow> nat \<Rightarrow> error + float64" where
  "py_truediv a b =
     (if b = 0 then Inl ZeroDivisionError
      else if a = 0 then Inr float_zero
      else Inr (round_ratio a b))"

definition float_mul :: "float64 \<Rightarrow> float64 \<Rightarrow> float64" where
  "float_mul x y =
     (if mantissa x * mantissa y = 0 then float_zero
      else (let r = round_ratio (mantissa x * mantissa y) 1
            in r\<lparr>exponent := exponent r + exponent x + exponent y\<rparr>))"

text \<open>\<^verbatim>\<open>int(x)\<close>: truncation towards zero.\<close>

definition py_int :: "float64 \<Rightarrow> int" where
  "py_int x =
     (if 0 \<le> exponent x then int (mantissa x * 2 ^ nat (exponent x))
      else int (mantissa x div 2 ^ nat (- exponent x)))"

text \<open>The expression \<^verbatim>\<open>int((a / b) * 100)\<close> of both analytics functions.\<close>

definition percent :: "nat \<Rightarrow> nat \<Rightarrow> error + int" where
  "percent a b =
     (case py_truediv a b of
        Inl e \<Rightarrow> Inl e
      | Inr ratio \<Rightarrow> Inr (py_int (float_mul ratio (float_of_nat 100))))"

section \<open>Analytics engine\<close>

text \<open>
  \<^verbatim>\<open>utils/analytics.py\<close>. The truth value of an optional string: \<^verbatim>\<open>None\<close> and the empty
  string are false.
\<close>

definition truthy :: "string option \<Rightarrow> bool" where
  "truthy x = (case x of None \<Rightarrow> False | Some v \<Rightarrow> v \<noteq> [])"

definition project_tasks :: "store \<Rightarrow> string \<Rightarrow> task list" where
  "project_tasks s project_id = filter (\<lambda>t. t_project_id t = project_id) (tasks s)"

definition completed_count :: "task list \<Rightarrow> nat" where
  "completed_count ts = length (filter (\<lambda>t. status t = Some ''completed'') ts)"

text \<open>
  \<^verbatim>\<open>calculate_project_progress\<close>: with no task it returns 0 before the write; otherwise it
  writes the percentage to the project row and returns it.
\<close>

definition calculate_project_progress :: "store \<Rightarrow> string \<Rightarrow> store \<times> (error + int)" where
  "calculate_project_progress s project_id =
     (let ts = project_tasks s project_id
      in if ts = [] then (s, Inr 0)
         else (case percent (completed_count ts) (length ts) of
            Inl e \<Rightarrow> (s, Inl e)
          | Inr new_progress \<Rightarrow>
              (case db_update p_id (projects s) project_id (\<lambda>p. p\<lparr>progress := new_progress\<rparr>) of
                 Inl e \<Rightarrow> (s, Inl e)
               | Inr (rows, _) \<Rightarrow> (s\<lparr>projects := rows\<rparr>, Inr new_progress))))"

text \<open>
  Dates. A \<^verbatim>\<open>datetime\<close> is a day (the proleptic Gregorian ordinal of \<^verbatim>\<open>date.toordinal()\<close>,
  from 1 for 0001-01-01 to 3652059 for 9999-12-31) and the microsecond of that day.
  Arithmetic that leaves the range of days raises \<^verbatim>\<open>OverflowError\<close>, and so does a
  \<^verbatim>\<open>timedelta\<close> of more than 999999999 days.
\<close>

record datetime =
  dt_day :: int
  dt_micro :: nat

definition timedelta :: "int \<Rightarrow> error + int" where
  "timedelta days = (if 999999999 < \<bar>days\<bar> then Inl OverflowError else Inr days)"

definition dt_add :: "datetime \<Rightarrow> int \<Rightarrow> error + datetime" where
  "dt_add d delta =
     (if dt_day d + delta < 1 \<or> 3652059 < dt_day d + delta then Inl OverflowError
      else Inr (d\<lparr>dt_day := dt_day d + delta\<rparr>))"

definition dt_le :: "datetime \<Rightarrow> datetime \<Rightarrow> bool" where
  "dt_le a b = (dt_day a < dt_day b \<or> (dt_day a = dt_day b \<and> dt_micro a \<le> dt_micro b))"

text \<open>
  The generator sum of \<^verbatim>\<open>get_project_timeline\<close>. \<open>parse u\<close> stands for
  \<^verbatim>\<open>datetime.fromisoformat(u.replace("Z", "+00:00")).date()\<close>, as an ordinal; \<open>None\<close> is its
  \<^verbatim>\<open>ValueError\<close>, which nothing in the function catches.
\<close>

fun completed_by_date :: "(string \<Rightarrow> int option) \<Rightarrow> int \<Rightarrow> task list \<Rightarrow> error + nat" where
  "completed_by_date parse d [] = Inr 0"
| "completed_by_date parse d (t # ts) =
     (if status t = Some ''completed'' \<and> truthy (updated_at t)
      then (case updated_at t of
              None \<Rightarrow> completed_by_date parse d ts
            | Some u \<Rightarrow>
                (case parse u of
                   None \<Rightarrow> Inl ValueError
                 | Some day \<Rightarrow>
                     (case completed_by_date parse d ts of
                        Inl e \<Rightarrow> Inl e
                      | Inr n \<Rightarrow> Inr ((if day \<le> d then 1 else 0) + n))))
      else completed_by_date parse d ts)"

text \<open>
  One dictionary of the timeline. The date is kept as the ordinal of the day; the source
  prints it with \<^verbatim>\<open>strftime("%Y-%m-%d")\<close>, which is one-to-one on days.
\<close>

record timeline_entry =
  te_date :: int
  te_completed :: nat
  te_total :: nat
  te_progress :: int

definition timeline_progress :: "nat \<Rightarrow> nat \<Rightarrow> error + int" where
  "timeline_progress completed total_tasks =
     (if 0 < total_tasks then percent completed total_tasks else Inr 0)"

function timeline_loop ::
  "(string \<Rightarrow> int option) \<Rightarrow> task list \<Rightarrow> datetime \<Rightarrow> datetime \<Rightarrow> timeline_entry list
     \<Rightarrow> error + timeline_entry list" where
  "timeline_loop parse ts end_date current_date timeline =
     (if dt_le current_date end_date
      then (case completed_by_date parse (dt_day current_date) ts of
              Inl e \<Rightarrow> Inl e
            | Inr completed \<Rightarrow>
                (case timeline_progress completed (length ts) of
                   Inl e \<Rightarrow> Inl e
                 | Inr p \<Rightarrow>
                     (if dt_day current_date + 1 < 1 \<or> 3652059 < dt_day current_date + 1
                      then Inl OverflowError
                      else timeline_loop parse ts end_date
                             (current_date\<lparr>dt_day := dt_day current_date + 1\<rparr>)
                             (timeline @
                                [\<lparr>te_date = dt_day current_date, te_completed = completed,
                                  te_total = length ts, te_progress = p\<rparr>]))))
      else Inr timeline)"
  by pat_completeness auto
termination
  by (relation "measure (\<lambda>(parse, ts, end_date, current_date, timeline).
                   nat (dt_day end_date + 1 - dt_day current_date))")
     (auto simp: dt_le_def)

declare timeline_loop.simps [simp del]

definition get_project_timeline ::
  "(string \<Rightarrow> int option) \<Rightarrow> store \<Rightarrow> string \<Rightarrow> datetime \<Rightarrow> int \<Rightarrow> error + timeline_entry list" where
  "get_project_timeline parse s project_id now days =
     (case timedelta days of
        Inl e \<Rightarrow> Inl e
      | Inr delta \<Rightarrow>
          (case dt_add now (- delta) of
             Inl e \<Rightarrow> Inl e
           | Inr start_date \<Rightarrow> timeline_loop parse (project_tasks s project_id) now start_date []))"

text \<open>
  The words of the specification for one bucket of the timeline: a task counts when its
  status is completed and the date of its \<^verbatim>\<open>updated_at\<close> is not after the date of the bucket.
\<close>

definition spec_counts :: "(string \<Rightarrow> int option) \<Rightarrow> int \<Rightarrow> task \<Rightarrow> bool" where
  "spec_counts parse d t =
     (status t = Some ''completed'' \<and>
      (case updated_at t of
         None \<Rightarrow> False
       | Some u \<Rightarrow> u \<noteq> [] \<and> (case parse u of None \<Rightarrow> False | Some day \<Rightarrow> day \<le> d)))"

text \<open>
  The precondition of the timeline: the \<^verbatim>\<open>updated_at\<close> of a completed task, when it is
  neither null nor empty, parses.
\<close>

definition parseable :: "(string \<Rightarrow> int option) \<Rightarrow> task \<Rightarrow> bool" where
  "parseable parse t =
     (case updated_at t of
        None \<Rightarrow> True
      | Some u \<Rightarrow> status t \<noteq> Some ''completed'' \<or> u = [] \<or> parse u \<noteq> None)"

text \<open>The record of the timeline for one day, when nothing raises.\<close>

definition timeline_record :: "(string \<Rightarrow> int option) \<Rightarrow> task list \<Rightarrow> int \<Rightarrow> timeline_entry" where
  "timeline_record parse ts d =
     (let completed = length (filter (spec_counts parse d) ts)
      in \<lparr>te_date = d, te_completed = completed, te_total = length ts,
          te_progress = (case timeline_progress completed (length ts) of
                           Inl _ \<Rightarrow> 0 | Inr p \<Rightarrow> p)\<rparr>)"

text \<open>
  The loop of \<^verbatim>\<open>get_team_productivity\<close> that collects the completion times of the completed
  tasks of one member: the local variables \<^verbatim>\<open>total_days\<close> and \<^verbatim>\<open>valid_tasks\<close>. \<open>duration c u\<close>
  stands for the body of its \<^verbatim>\<open>try\<close>, the whole days between the two parsed timestamps;
  \<open>None\<close> is a \<^verbatim>\<open>ValueError\<close> or \<^verbatim>\<open>TypeError\<close>, which the \<^verbatim>\<open>except\<close> clause answers with
  \<^verbatim>\<open>continue\<close>.
\<close>

definition sample_step ::
  "(string \<Rightarrow> string \<Rightarrow> int option) \<Rightarrow> task \<Rightarrow> int \<times> nat \<Rightarrow> int \<times> nat" where
  "sample_step duration t acc =
     (if truthy (created_at t) \<and> truthy (updated_at t)
      then (case (created_at t, updated_at t) of
              (Some c, Some u) \<Rightarrow>
                (case duration c u of
                   None \<Rightarrow> acc
                 | Some days \<Rightarrow> if 0 \<le> days then (fst acc + days, snd acc + 1) else acc)
            | _ \<Rightarrow> acc)
      else acc)"

definition completion_samples ::
  "(string \<Rightarrow> string \<Rightarrow> int option) \<Rightarrow> task list \<Rightarrow> int \<times> nat" where
  "completion_samples duration ts =
     fold (sample_step duration) (filter (\<lambda>t. status t = Some ''completed'') ts) (0, 0)"

section \<open>Task routes\<close>

text \<open>
  \<^verbatim>\<open>routes/tasks.py\<close>, with the request bodies of \<^verbatim>\<open>models/project.py\<close>. In \<^verbatim>\<open>TaskUpdate\<close>
  every field may be absent (\<open>None\<close>: \<^verbatim>\<open>model_dump(exclude_unset=True)\<close> leaves it out) or
  present, and a present field may be null.
\<close>

datatype TaskStatus = TODO | IN_PROGRESS | COMPLETED

fun task_status_value :: "TaskStatus \<Rightarrow> string" where
  "task_status_value TODO = ''todo''"
| "task_status_value IN_PROGRESS = ''in_progress''"
| "task_status_value COMPLETED = ''completed''"

datatype TaskPriority = LOW | MEDIUM | HIGH

fun task_priority_value :: "TaskPriority \<Rightarrow> string" where
  "task_priority_value LOW = ''low''"
| "task_priority_value MEDIUM = ''medium''"
| "task_priority_value HIGH = ''high''"

record TaskCreate =
  tc_project_id :: string
  tc_title :: string
  tc_description :: "string option"
  tc_assigned_to :: "string option"
  tc_status :: TaskStatus
  tc_priority :: TaskPriority

record TaskUpdate =
  tu_title :: "string option option"
  tu_description :: "string option option"
  tu_assigned_to :: "string option option"
  tu_status :: "TaskStatus option option"
  tu_priority :: "TaskPriority option option"

definition verify_project_access :: "store \<Rightarrow> string \<Rightarrow> string \<Rightarrow> error + unit" where
  "verify_project_access s project_id username =
     (case select_by_id p_id (projects s) project_id of
        None \<Rightarrow> Inl (ProjectNotFound project_id)
      | Some project \<Rightarrow>
          if \<not> is_project_member s username project_id then Inl UnauthorizedAccess
          else Inr ())"

text \<open>
  The response model \<^verbatim>\<open>Task\<close> of \<^verbatim>\<open>models/project.py\<close>. The routes end with
  \<^verbatim>\<open>return Task(**row)\<close>, which validates the row they have written: \<^verbatim>\<open>title\<close>, \<^verbatim>\<open>status\<close>
  and \<^verbatim>\<open>priority\<close> are strings, \<^verbatim>\<open>created_at\<close> and \<^verbatim>\<open>updated_at\<close> are datetimes, and
  \<^verbatim>\<open>description\<close> and \<^verbatim>\<open>assigned_to\<close> may be null. \<open>valid_datetime u\<close> stands for pydantic's
  validation of the string \<open>u\<close> as a datetime. A row that does not validate raises
  \<^verbatim>\<open>ValidationError\<close>, after the writes of the route. A key that the model does not have,
  such as \<^verbatim>\<open>project_progress\<close>, is ignored.
\<close>

definition Task :: "(string \<Rightarrow> bool) \<Rightarrow> task \<Rightarrow> error + task" where
  "Task valid_datetime row =
     (if title row \<noteq> None \<and> status row \<noteq> None \<and> priority row \<noteq> None \<and>
         (case created_at row of None \<Rightarrow> False | Some c \<Rightarrow> valid_datetime c) \<and>
         (case updated_at row of None \<Rightarrow> False | Some u \<Rightarrow> valid_datetime u)
      then Inr row else Inl ValidationError)"

text \<open>
  \<^verbatim>\<open>create_task\<close>. \<open>new_id\<close> and \<open>now_ts\<close> are the id and the timestamp the server gives to
  the inserted row. After the insert the function only logs the assignment, which writes
  nothing, and builds the response: it does not recompute the progress.
\<close>

definition create_task ::
  "(string \<Rightarrow> bool) \<Rightarrow> store \<Rightarrow> string \<Rightarrow> TaskCreate \<Rightarrow> string \<Rightarrow> string \<Rightarrow> string
     \<Rightarrow> store \<times> (error + task)" where
  "create_task valid_datetime s project_id task_data current_user new_id now_ts =
     (case verify_project_access s project_id current_user of
        Inl e \<Rightarrow> (s, Inl e)
      | Inr _ \<Rightarrow>
          if \<not> check_permission (get_user_role_in_project s current_user project_id) CREATE_TASK
          then (s, Inl (InsufficientPermissions ''create tasks''))
          else if (case tc_assigned_to task_data of
                     None \<Rightarrow> False
                   | Some a \<Rightarrow> a \<noteq> [] \<and> \<not> is_project_member s a project_id)
          then (s, Inl InvalidData)
          else if truthy (tc_assigned_to task_data) \<and>
                  tc_assigned_to task_data \<noteq> Some current_user \<and>
                  \<not> can_assign_task s current_user project_id
          then (s, Inl (InsufficientPermissions ''assign tasks to others''))
          else (let created_task =
                      \<lparr>t_id = new_id, t_project_id = project_id,
                       title = Some (tc_title task_data),
                       description = tc_description task_data,
                       assigned_to = tc_assigned_to task_data,
                       status = Some (task_status_value (tc_status task_data)),
                       priority = Some (task_priority_value (tc_priority task_data)),
                       created_at = Some now_ts, updated_at = Some now_ts\<rparr>
                in (s\<lparr>tasks := db_insert (tasks s) created_task\<rparr>,
                    Task valid_datetime created_task)))"

text \<open>The columns of an update payload, written over a row.\<close>

definition update_data_empty :: "TaskUpdate \<Rightarrow> bool" where
  "update_data_empty u =
     (tu_title u = None \<and> tu_description u = None \<and> tu_assigned_to u = None \<and>
      tu_status u = None \<and> tu_priority u = None)"

definition apply_update_data :: "TaskUpdate \<Rightarrow> task \<Rightarrow> task" where
  "apply_update_data u t =
     t\<lparr>title := (case tu_title u of None \<Rightarrow> title t | Some v \<Rightarrow> v),
       description := (case tu_description u of None \<Rightarrow> description t | Some v \<Rightarrow> v),
       assigned_to := (case tu_assigned_to u of None \<Rightarrow> assigned_to t | Some v \<Rightarrow> v),
       status := (case tu_status u of None \<Rightarrow> status t
                  | Some v \<Rightarrow> map_option task_status_value v),
       priority := (case tu_priority u of None \<Rightarrow> priority t
                    | Some v \<Rightarrow> map_option task_priority_value v)\<rparr>"

text \<open>
  The lookup that three routes share: the task by id, \<^verbatim>\<open>TaskNotFoundException\<close> when there
  is none or when it belongs to another project.
\<close>

definition find_project_task :: "store \<Rightarrow> string \<Rightarrow> string \<Rightarrow> error + task" where
  "find_project_task s project_id task_id =
     (case select_by_id t_id (tasks s) task_id of
        None \<Rightarrow> Inl (TaskNotFound task_id)
      | Some t \<Rightarrow> if t_project_id t \<noteq> project_id then Inl (TaskNotFound task_id) else Inr t)"

text \<open>
  \<^verbatim>\<open>update_task\<close>: the progress is recomputed only when the payload has a \<^verbatim>\<open>status\<close> key; the
  response is built from the updated row.
\<close>

definition update_task ::
  "(string \<Rightarrow> bool) \<Rightarrow> store \<Rightarrow> string \<Rightarrow> string \<Rightarrow> TaskUpdate \<Rightarrow> string
     \<Rightarrow> store \<times> (error + task)" where
  "update_task valid_datetime s project_id task_id task_data current_user =
     (case verify_project_access s project_id current_user of
        Inl e \<Rightarrow> (s, Inl e)
      | Inr _ \<Rightarrow>
     (case find_project_task s project_id task_id of
        Inl e \<Rightarrow> (s, Inl e)
      | Inr t \<Rightarrow>
          if \<not> can_edit_task s current_user project_id (assigned_to t)
          then (s, Inl (InsufficientPermissions ''edit this task''))
          else if update_data_empty task_data then (s, Inl InvalidData)
          else if (case tu_assigned_to task_data of
                     None \<Rightarrow> False
                   | Some a \<Rightarrow> a \<noteq> assigned_to t \<and> \<not> can_assign_task s current_user project_id)
          then (s, Inl (InsufficientPermissions ''assign tasks''))
          else if (case tu_assigned_to task_data of
                     None \<Rightarrow> False
                   | Some a \<Rightarrow> a \<noteq> assigned_to t \<and>
                       (case a of
                          None \<Rightarrow> False
                        | Some n \<Rightarrow> n \<noteq> [] \<and> \<not> is_project_member s n project_id))
          then (s, Inl InvalidData)
          else (case db_update t_id (tasks s) task_id (apply_update_data task_data) of
             Inl e \<Rightarrow> (s, Inl e)
           | Inr (rows, updated_task) \<Rightarrow>
               if tu_status task_data \<noteq> None
               then (case calculate_project_progress (s\<lparr>tasks := rows\<rparr>) project_id of
                       (s', Inl e) \<Rightarrow> (s', Inl e)
                     | (s', Inr new_progress) \<Rightarrow> (s', Task valid_datetime updated_task))
               else (s\<lparr>tasks := rows\<rparr>, Task valid_datetime updated_task))))"

text \<open>
  \<^verbatim>\<open>update_task_status\<close>: the role's permission or the assignment allows the update; the
  progress is recomputed after the write, and the response is built from the updated row.
\<close>

definition update_task_status ::
  "(string \<Rightarrow> bool) \<Rightarrow> store \<Rightarrow> string \<Rightarrow> string \<Rightarrow> TaskStatus \<Rightarrow> string
     \<Rightarrow> store \<times> (error + task)" where
  "update_task_status valid_datetime s project_id task_id new_status current_user =
     (case verify_project_access s project_id current_user of
        Inl e \<Rightarrow> (s, Inl e)
      | Inr _ \<Rightarrow>
     (case find_project_task s project_id task_id of
        Inl e \<Rightarrow> (s, Inl e)
      | Inr t \<Rightarrow>
          (let user_role = get_user_role_in_project s current_user project_id;
               task_owner = assigned_to t;
               has_permission = check_permission user_role UPDATE_TASK_STATUS;
               is_assigned = (task_owner = Some current_user)
           in if \<not> (has_permission \<or> is_assigned)
              then (s, Inl (InsufficientPermissions ''update task status''))
              else (case db_update t_id (tasks s) task_id
                           (\<lambda>x. x\<lparr>status := Some (task_status_value new_status)\<rparr>) of
                 Inl e \<Rightarrow> (s, Inl e)
               | Inr (rows, updated_task) \<Rightarrow>
                   (case calculate_project_progress (s\<lparr>tasks := rows\<rparr>) project_id of
                      (s', Inl e) \<Rightarrow> (s', Inl e)
                    | (s', Inr new_progress) \<Rightarrow> (s', Task valid_datetime updated_task))))))"

text \<open>
  \<^verbatim>\<open>delete_task\<close>: the function ends with the delete and returns \<^verbatim>\<open>None\<close>; it does not
  recompute the progress.
\<close>

definition delete_task :: "store \<Rightarrow> string \<Rightarrow> string \<Rightarrow> string \<Rightarrow> store \<times> (error + unit)" where
  "delete_task s project_id task_id current_user =
     (case verify_project_access s project_id current_user of
        Inl e \<Rightarrow> (s, Inl e)
      | Inr _ \<Rightarrow>
     (case find_project_task s project_id task_id of
        Inl e \<Rightarrow> (s, Inl e)
      | Inr t \<Rightarrow>
          if \<not> can_delete_task s current_user project_id (assigned_to t)
          then (s, Inl (InsufficientPermissions ''delete tasks''))
          else (s\<lparr>tasks := db_delete t_id (tasks s) task_id\<rparr>, Inr ())))"

text \<open>
  The value that \<^const>\<open>calculate_project_progress\<close> computes from the tasks of a store,
  without the write: the float expression of the source, not the formula of the
  specification.
\<close>

definition computed_progress :: "store \<Rightarrow> string \<Rightarrow> error + int" where
  "computed_progress s project_id =
     (let ts = project_tasks s project_id
      in if ts = [] then Inr 0 else percent (completed_count ts) (length ts))"

text \<open>
  The completion percentage in the words of the specification:
  \<open>floor(100 \<times> completedCount / totalCount)\<close>, and 0 for a project without tasks.
\<close>

definition spec_progress :: "store \<Rightarrow> string \<Rightarrow> int" where
  "spec_progress s project_id =
     (let ts = project_tasks s project_id
      in if ts = [] then 0 else (100 * int (completed_count ts)) div int (length ts))"

section \<open>Example stores\<close>

text \<open>A store with a membership row whose project does not exist.\<close>

definition orphan_store :: store where
  "orphan_store =
     \<lparr>projects = [],
      team_members = [\<lparr>tm_id = ''m1'', tm_project_id = ''p1'', tm_username = ''bob'',
                       tm_role = ''developer''\<rparr>],
      tasks = []\<rparr>"

text \<open>
  A project of alice with a developer, a viewer and a manager, and one completed task that
  is assigned to the viewer.
\<close>

definition team_store :: store where
  "team_store =
     \<lparr>projects = [\<lparr>p_id = ''p1'', owner_id = ''alice'', progress = 100\<rparr>],
      team_members =
        [\<lparr>tm_id = ''m1'', tm_project_id = ''p1'', tm_username = ''bob'', tm_role = ''developer''\<rparr>,
         \<lparr>tm_id = ''m2'', tm_project_id = ''p1'', tm_username = ''carol'', tm_role = ''viewer''\<rparr>,
         \<lparr>tm_id = ''m3'', tm_project_id = ''p1'', tm_username = ''dave'', tm_role = ''manager''\<rparr>],
      tasks =
        [\<lparr>t_id = ''t1'', t_project_id = ''p1'', title = Some ''design'', description = None,
          assigned_to = Some ''carol'', status = Some ''completed'', priority = Some ''high'',
          created_at = Some ''2024-01-01T00:00:00Z'',
          updated_at = Some ''2024-01-03T00:00:00Z''\<rparr>]\<rparr>"

text \<open>A new task with status \<open>todo\<close> and no assignee.\<close>

definition new_todo :: TaskCreate where
  "new_todo = \<lparr>tc_project_id = ''p1'', tc_title = ''review'', tc_description = None,
               tc_assigned_to = None, tc_status = TODO, tc_priority = MEDIUM\<rparr>"

text \<open>An update payload that has only a status.\<close>

definition set_todo :: TaskUpdate where
  "set_todo = \<lparr>tu_title = None, tu_description = None, tu_assigned_to = None,
               tu_status = Some (Some TODO), tu_priority = None\<rparr>"

text \<open>A request that adds the owner of the project as a manager.\<close>

definition add_alice :: TeamMemberAdd where
  "add_alice = \<lparr>tma_username = ''alice'', tma_role = TM_MANAGER\<rparr>"


text \<open>
  A parser for the examples: it knows the timestamp of 3 January 2024, day 738888, and
  raises on every other string.
\<close>

definition parse_example :: "string \<Rightarrow> int option" where
  "parse_example u = (if u = ''2024-01-03T00:00:00Z'' then Some 738888 else None)"

text \<open>
  A datetime validation for the examples: it accepts the three timestamps that the examples
  give to valid rows and rejects every other string.
\<close>

definition datetime_example :: "string \<Rightarrow> bool" where
  "datetime_example u =
     (u = ''2024-01-01T00:00:00Z'' \<or> u = ''2024-01-03T00:00:00Z'' \<or> u = ''2024-02-01T00:00:00Z'')"

text \<open>Noon of 5 January 2024.\<close>

definition now_example :: datetime where
  "now_example = \<lparr>dt_day = 738890, dt_micro = 43200000000\<rparr>"

text \<open>A project whose only task is completed and has the timestamp \<open>yesterday\<close>.\<close>

definition unparseable_store :: store where
  "unparseable_store =
     \<lparr>projects = [\<lparr>p_id = ''p1'', owner_id = ''alice'', progress = 100\<rparr>],
      team_members = [],
      tasks =
        [\<lparr>t_id = ''t1'', t_project_id = ''p1'', title = Some ''design'', description = None,
          assigned_to = Some ''alice'', status = Some ''completed'', priority = Some ''high'',
          created_at = Some ''2024-01-01T00:00:00Z'', updated_at = Some ''yesterday''\<rparr>]\<rparr>"

text \<open>
  A project with fifty tasks, the first twenty-nine of them completed on 3 January 2024.
  Task number \<open>i\<close> has an id of its own.
\<close>

definition numbered_task :: "string \<Rightarrow> nat \<Rightarrow> task" where
  "numbered_task st i =
     \<lparr>t_id = CHR ''t'' # replicate i CHR ''i'', t_project_id = ''p1'', title = Some ''work'',
      description = None, assigned_to = None, status = Some st, priority = Some ''medium'',
      created_at = Some ''2024-01-01T00:00:00Z'', updated_at = Some ''2024-01-03T00:00:00Z''\<rparr>"

definition numbered_tasks :: "string \<Rightarrow> nat \<Rightarrow> nat \<Rightarrow> task list" where
  "numbered_tasks st lo hi = map (numbered_task st) [lo..<hi]"

definition fifty_store :: store where
  "fifty_store =
     \<lparr>projects = [\<lparr>p_id = ''p1'', owner_id = ''alice'', progress = 0\<rparr>],
      team_members = [],
      tasks = numbered_tasks ''completed'' 0 29 @ numbered_tasks ''todo'' 29 50\<rparr>"

section \<open>Properties of the RBAC engine\<close>

lemma str_lower_role_value: "str_lower (role_value r) = role_value r"
  by (cases r) (simp_all add: str_lower_def char_lower_def)

lemma Role_of_value_role_value: "Role_of_value (role_value r) = Some r"
  by (cases r) (simp_all add: Role_of_value_def)

lemma role_value_nonempty: "role_value r \<noteq> []"
  by (cases r) simp_all

lemma table_cell: "(p \<in> set (ROLE_PERMISSIONS r)) = spec_table r p"
  by (cases r; cases p) simp_all

text \<open>
  Claim C1, as amended. \<^const>\<open>check_permission\<close> is the table of section 4.1 on the four
  roles and fifteen permissions, and false for \<^verbatim>\<open>None\<close> and for the empty string. A role
  string is lower-cased before it is looked up, so every string whose lower-case form is
  the value of a role has the row of that role, and every other string has no permission;
  no input raises.
\<close>

theorem check_permission_table:
  "(\<forall>r p. check_permission (Some (role_value r)) p = spec_table r p) \<and>
   (\<forall>p. \<not> check_permission None p) \<and>
   (\<forall>p. \<not> check_permission (Some []) p) \<and>
   (\<forall>s p. check_permission (Some s) p =
            (case Role_of_value (str_lower s) of
               Some r \<Rightarrow> spec_table r p
             | None \<Rightarrow> False))"
proof -
  have cell: "check_permission (Some (role_value r)) p = spec_table r p" for r p
    by (simp add: check_permission_def str_lower_role_value Role_of_value_role_value
        role_value_nonempty table_cell)
  have empty: "Role_of_value (str_lower []) = None"
    by (simp add: str_lower_def Role_of_value_def)
  have general: "check_permission (Some s) p =
      (case Role_of_value (str_lower s) of Some r \<Rightarrow> spec_table r p | None \<Rightarrow> False)" for s p
    by (cases "s = []") (simp_all add: check_permission_def empty table_cell split: option.split)
  show ?thesis
    using cell general by (simp add: check_permission_def)
qed

text \<open>
  The claim as written fails: the string \<open>''Owner''\<close> is not the value of a role, and it
  has the permissions of the owner.
\<close>

theorem check_permission_mixed_case_counterexample:
  "''Owner'' \<notin> set (map role_value [OWNER, MANAGER, DEVELOPER, VIEWER]) \<and>
   check_permission (Some ''Owner'') DELETE_PROJECT"
  by (simp add: check_permission_def str_lower_def char_lower_def Role_of_value_def)

section \<open>Properties of role resolution\<close>

text \<open>
  Claim C2, as amended. When the project id is absent from the store,
  \<^const>\<open>get_user_role_in_project\<close> raises nothing: it returns the role of the first
  membership row for the project id and the user name, or \<^verbatim>\<open>None\<close> when there is no such
  row. The error \<open>ProjectNotFound\<close> comes from the checks that the routes make first.
\<close>

theorem resolve_role_missing_project:
  "select_by_id p_id (projects s) project_id = None \<Longrightarrow>
   get_user_role_in_project s username project_id =
     (case members_of s project_id username of [] \<Rightarrow> None | m # _ \<Rightarrow> Some (tm_role m)) \<and>
   verify_project_exists s project_id = Inl (ProjectNotFound project_id) \<and>
   verify_project_access s project_id username = Inl (ProjectNotFound project_id)"
  by (simp add: get_user_role_in_project_def verify_project_exists_def verify_project_access_def)

theorem resolve_role_missing_project_witness:
  "select_by_id p_id (projects orphan_store) ''p1'' = None \<and>
   get_user_role_in_project orphan_store ''alice'' ''p1'' = None \<and>
   verify_project_access orphan_store ''p1'' ''alice'' = Inl (ProjectNotFound ''p1'')"
proof -
  have h: "select_by_id p_id (projects orphan_store) ''p1'' = None"
    by (simp add: select_by_id_def orphan_store_def)
  show ?thesis
    using h resolve_role_missing_project [OF h, of "''alice''"]
    by (simp add: members_of_def orphan_store_def)
qed

text \<open>
  The claim as written fails: with no project \<open>p1\<close> in the store the function returns a
  role for bob.
\<close>

theorem resolve_role_missing_project_counterexample:
  "select_by_id p_id (projects orphan_store) ''p1'' = None \<and>
   get_user_role_in_project orphan_store ''bob'' ''p1'' = Some ''developer''"
  by (simp add: select_by_id_def get_user_role_in_project_def members_of_def orphan_store_def)

text \<open>
  Claim C3. \<^const>\<open>can_edit_task\<close> is true whenever the resolved role is owner or manager;
  for a developer it is true exactly when the assignee of the task is the user, so never
  for a task without assignee; for a viewer and for an unresolved role it is false.
\<close>

theorem can_edit_task_rule:
  "(get_user_role_in_project s username project_id = Some (role_value OWNER) \<or>
    get_user_role_in_project s username project_id = Some (role_value MANAGER)
      \<longrightarrow> can_edit_task s username project_id task_owner) \<and>
   (get_user_role_in_project s username project_id = Some (role_value DEVELOPER)
      \<longrightarrow> can_edit_task s username project_id task_owner = (task_owner = Some username)) \<and>
   (get_user_role_in_project s username project_id = Some (role_value DEVELOPER)
      \<longrightarrow> \<not> can_edit_task s username project_id None) \<and>
   (get_user_role_in_project s username project_id = Some (role_value VIEWER) \<or>
    get_user_role_in_project s username project_id = None
      \<longrightarrow> \<not> can_edit_task s username project_id task_owner)"
  by (auto simp: can_edit_task_def)

lemma team_store_roles:
  "get_user_role_in_project team_store ''alice'' ''p1'' = Some (role_value OWNER)"
  "get_user_role_in_project team_store ''dave'' ''p1'' = Some (role_value MANAGER)"
  "get_user_role_in_project team_store ''bob'' ''p1'' = Some (role_value DEVELOPER)"
  "get_user_role_in_project team_store ''carol'' ''p1'' = Some (role_value VIEWER)"
  "get_user_role_in_project team_store ''eve'' ''p1'' = None"
  by (simp_all add: get_user_role_in_project_def members_of_def select_by_id_def team_store_def)

theorem can_edit_task_rule_witness:
  "can_edit_task team_store ''alice'' ''p1'' (Some ''bob'') \<and>
   can_edit_task team_store ''dave'' ''p1'' None \<and>
   can_edit_task team_store ''bob'' ''p1'' (Some ''bob'') \<and>
   \<not> can_edit_task team_store ''bob'' ''p1'' (Some ''carol'') \<and>
   \<not> can_edit_task team_store ''bob'' ''p1'' None \<and>
   \<not> can_edit_task team_store ''carol'' ''p1'' (Some ''carol'') \<and>
   \<not> can_edit_task team_store ''eve'' ''p1'' (Some ''eve'')"
  using can_edit_task_rule [of team_store "''alice''" "''p1''" "Some ''bob''"]
    can_edit_task_rule [of team_store "''dave''" "''p1''" None]
    can_edit_task_rule [of team_store "''bob''" "''p1''" "Some ''bob''"]
    can_edit_task_rule [of team_store "''bob''" "''p1''" "Some ''carol''"]
    can_edit_task_rule [of team_store "''carol''" "''p1''" "Some ''carol''"]
    can_edit_task_rule [of team_store "''eve''" "''p1''" "Some ''eve''"]
  by (simp add: team_store_roles)

section \<open>Evaluating the float model\<close>

lemma bitlen_0: "bitlen 0 = 0"
  by (simp add: bitlen.simps)

lemma bitlen_1: "bitlen (Suc 0) = Suc 0"
  by (simp add: bitlen.simps [of "Suc 0"] bitlen_0)

lemma bitlen_numeral: "bitlen (numeral k) = Suc (bitlen (numeral k div 2))"
  by (subst bitlen.simps) simp

lemmas float_eval = percent_def py_truediv_def round_ratio_def round_exponent_def scaled_num_def
  scaled_den_def round_mantissa_def float_mul_def float_of_nat_def py_int_def float_zero_def Let_def
  bitlen_0 bitlen_1 bitlen_numeral

section \<open>Properties of the store operations\<close>

lemma find_map_update:
  assumes "\<And>x. idf (g x) = idf x"
  shows "find (\<lambda>r. idf r = i) (map (\<lambda>x. if idf x = i then g x else x) rows) =
         map_option g (find (\<lambda>r. idf r = i) rows)"
  using assms by (induction rows) simp_all

lemma filter_map_update:
  assumes "\<And>x. key (g x) = key x"
  shows "filter (\<lambda>r. key r = k) (map (\<lambda>x. if c x then g x else x) rows) =
         map (\<lambda>x. if c x then g x else x) (filter (\<lambda>r. key r = k) rows)"
  using assms by (induction rows) simp_all

lemma find_Some_mem: "find P xs = Some x \<Longrightarrow> x \<in> set xs \<and> P x"
  by (induction xs) (auto split: if_splits)

lemma percent_defined: "0 < b \<Longrightarrow> \<exists>v. percent a b = Inr v"
  by (simp add: percent_def py_truediv_def)

lemma project_tasks_update:
  assumes "\<And>x. t_project_id (g x) = t_project_id x"
  shows "project_tasks (s\<lparr>tasks := map (\<lambda>x. if t_id x = i then g x else x) (tasks s)\<rparr>) pid =
         map (\<lambda>x. if t_id x = i then g x else x) (project_tasks s pid)"
  using assms by (simp add: project_tasks_def filter_map_update)


lemma calculate_project_progress_result:
  assumes "calculate_project_progress s pid = (s', Inr v)" and "project_tasks s pid \<noteq> []"
  shows "tasks s' = tasks s \<and> computed_progress s' pid = Inr v \<and>
         (\<exists>p'. select_by_id p_id (projects s') pid = Some p' \<and> progress p' = v)"
proof -
  from assms(2) obtain w where w: "percent (completed_count (project_tasks s pid)) (length (project_tasks s pid)) = Inr w"
    using percent_defined [of "length (project_tasks s pid)"] by auto
  from assms w obtain p where p: "find (\<lambda>r. p_id r = pid) (projects s) = Some p"
    and s': "s' = s\<lparr>projects := map (\<lambda>x. if p_id x = pid then x\<lparr>progress := w\<rparr> else x) (projects s)\<rparr>"
    and vw: "v = w"
    by (auto simp: calculate_project_progress_def db_update_def Let_def split: option.splits)
  have "find (\<lambda>r. p_id r = pid) (projects s') = Some (p\<lparr>progress := w\<rparr>)"
    using p by (simp add: s' find_map_update)
  moreover have "project_tasks s' pid = project_tasks s pid"
    by (simp add: s' project_tasks_def)
  ultimately show ?thesis
    using w assms(2) by (simp add: s' vw computed_progress_def select_by_id_def)
qed

section \<open>Properties of the status update\<close>

lemma task_update_nonempty:
  assumes "select_by_id t_id (tasks s) task_id = Some t" and "t_project_id t = project_id"
    and "\<And>x. t_project_id (g x) = t_project_id x"
  shows "project_tasks (s\<lparr>tasks := map (\<lambda>x. if t_id x = task_id then g x else x) (tasks s)\<rparr>) project_id \<noteq> []"
proof -
  from assms(1) have "t \<in> set (tasks s)"
    using find_Some_mem [of "\<lambda>r. t_id r = task_id" "tasks s" t] by (simp add: select_by_id_def)
  with assms(2) have "t \<in> set (project_tasks s project_id)"
    by (simp add: project_tasks_def)
  then show ?thesis
    using assms(3) by (auto simp: project_tasks_update)
qed







lemma owner_permissions:
  "check_permission (Some ''owner'') p"
  by (cases p) (simp_all add: check_permission_def str_lower_def char_lower_def Role_of_value_def)




section \<open>Stored progress and task mutations\<close>

lemma percent_1_2: "percent (Suc 0) (Suc (Suc 0)) = Inr 50"
proof -
  have h: "percent (Suc 0) 2 = Inr 50"
    by (simp add: float_eval)
  show ?thesis
    unfolding numeral_2_eq_2 [symmetric] by (rule h)
qed

lemma percent_1_1: "percent (Suc 0) (Suc 0) = Inr 100"
  by (simp add: float_eval)

lemma team_store_sel:
  "projects team_store = [\<lparr>p_id = ''p1'', owner_id = ''alice'', progress = 100\<rparr>]"
  "tasks team_store =
        [\<lparr>t_id = ''t1'', t_project_id = ''p1'', title = Some ''design'', description = None,
          assigned_to = Some ''carol'', status = Some ''completed'', priority = Some ''high'',
          created_at = Some ''2024-01-01T00:00:00Z'',
          updated_at = Some ''2024-01-03T00:00:00Z''\<rparr>]"
  by (simp_all add: team_store_def)

lemma team_store_access:
  "verify_project_access team_store ''p1'' ''alice'' = Inr ()"
  by (simp add: verify_project_access_def is_project_member_def is_project_owner_def
      select_by_id_def team_store_sel)

lemma create_task_team_store:
  "create_task datetime_example team_store ''p1'' new_todo ''alice'' ''t2'' ''2024-02-01T00:00:00Z'' =
     (team_store\<lparr>tasks := tasks team_store @
        [\<lparr>t_id = ''t2'', t_project_id = ''p1'', title = Some ''review'', description = None,
          assigned_to = None, status = Some ''todo'', priority = Some ''medium'',
          created_at = Some ''2024-02-01T00:00:00Z'',
          updated_at = Some ''2024-02-01T00:00:00Z''\<rparr>]\<rparr>,
      Inr \<lparr>t_id = ''t2'', t_project_id = ''p1'', title = Some ''review'', description = None,
          assigned_to = None, status = Some ''todo'', priority = Some ''medium'',
          created_at = Some ''2024-02-01T00:00:00Z'',
          updated_at = Some ''2024-02-01T00:00:00Z''\<rparr>)"
  using team_store_roles(1)
  by (simp add: create_task_def team_store_access owner_permissions
      new_todo_def truthy_def db_insert_def Let_def Task_def datetime_example_def)

lemma find_task_team_store:
  "find_project_task team_store ''p1'' ''t1'' = Inr (hd (tasks team_store))"
  by (simp add: find_project_task_def select_by_id_def team_store_sel)

lemma can_delete_team_store: "can_delete_task team_store ''alice'' ''p1'' x"
  using team_store_roles(1) by (simp add: can_delete_task_def)

lemma delete_task_team_store:
  "delete_task team_store ''p1'' ''t1'' ''alice'' = (team_store\<lparr>tasks := []\<rparr>, Inr ())"
  by (simp add: delete_task_def team_store_access find_task_team_store can_delete_team_store)
     (simp add: db_delete_def team_store_sel)

text \<open>
  Neither \<^const>\<open>create_task\<close> nor \<^const>\<open>delete_task\<close> ever writes to the table of projects,
  whatever the request and its outcome.
\<close>

lemma create_delete_keep_projects:
  "projects (fst (create_task valid_datetime s project_id task_data current_user new_id now_ts)) =
     projects s"
  "projects (fst (delete_task s project_id task_id current_user)) = projects s"
  by (simp_all add: create_task_def delete_task_def Let_def split: sum.splits)

text \<open>
  Claim C6 fails on the code. In \<^const>\<open>team_store\<close> the stored progress is the completion
  percentage, 100. After the owner creates a second task the percentage is
  \<open>\<lfloor>100 * 1 / 2\<rfloor> = 50\<close>, and after she deletes the only task it is 0; both routes succeed
  and leave the stored progress at 100. The two routes that change a status call
  \<^const>\<open>calculate_project_progress\<close> after their write; these two do not.
\<close>

theorem create_delete_leave_progress_stale:
  "map progress (projects team_store) = [100] \<and>
   spec_progress team_store ''p1'' = 100 \<and>
   \<not> isl (snd (create_task datetime_example team_store ''p1'' new_todo ''alice'' ''t2''
                 ''2024-02-01T00:00:00Z'')) \<and>
   map progress (projects (fst (create_task datetime_example team_store ''p1'' new_todo ''alice''
                                  ''t2'' ''2024-02-01T00:00:00Z''))) = [100] \<and>
   spec_progress (fst (create_task datetime_example team_store ''p1'' new_todo ''alice'' ''t2''
                         ''2024-02-01T00:00:00Z'')) ''p1'' = 50 \<and>
   snd (delete_task team_store ''p1'' ''t1'' ''alice'') = Inr () \<and>
   map progress (projects (fst (delete_task team_store ''p1'' ''t1'' ''alice''))) = [100] \<and>
   spec_progress (fst (delete_task team_store ''p1'' ''t1'' ''alice'')) ''p1'' = 0"
proof -
  have a: "map progress (projects team_store) = [100]"
    by (simp add: team_store_sel)
  have b: "spec_progress team_store ''p1'' = 100"
    by (simp add: spec_progress_def project_tasks_def completed_count_def team_store_sel)
  have c: "spec_progress (fst (create_task datetime_example team_store ''p1'' new_todo ''alice'' ''t2''
                            ''2024-02-01T00:00:00Z'')) ''p1'' = 50"
    by (simp add: create_task_team_store spec_progress_def project_tasks_def completed_count_def
        team_store_sel)
  have d: "spec_progress (fst (delete_task team_store ''p1'' ''t1'' ''alice'')) ''p1'' = 0"
    by (simp add: delete_task_team_store spec_progress_def project_tasks_def)
  show ?thesis
    using a b c d by (simp add: create_task_team_store delete_task_team_store)
qed

lemma apply_update_data_keys:
  "t_project_id (apply_update_data u x) = t_project_id x"
  "t_id (apply_update_data u x) = t_id x"
  by (simp_all add: apply_update_data_def)

lemma update_task_status_success:
  assumes "update_task_status valid_datetime s project_id task_id new_status current_user =
             (s', Inr t')"
  shows "\<exists>t v. select_by_id t_id (tasks s) task_id = Some t \<and> t_project_id t = project_id \<and>
           calculate_project_progress
             (s\<lparr>tasks := map (\<lambda>x. if t_id x = task_id
                                   then x\<lparr>status := Some (task_status_value new_status)\<rparr> else x)
                              (tasks s)\<rparr>) project_id = (s', Inr v)"
  using assms
  by (auto simp: update_task_status_def find_project_task_def db_update_def select_by_id_def Let_def
      split: sum.splits option.splits if_splits prod.splits)

lemma update_task_success:
  assumes "update_task valid_datetime s project_id task_id task_data current_user = (s', Inr t')"
    and "tu_status task_data \<noteq> None"
  shows "\<exists>t v. select_by_id t_id (tasks s) task_id = Some t \<and> t_project_id t = project_id \<and>
           calculate_project_progress
             (s\<lparr>tasks := map (\<lambda>x. if t_id x = task_id then apply_update_data task_data x else x)
                              (tasks s)\<rparr>) project_id = (s', Inr v)"
proof -
  from assms(1) obtain t where t: "find_project_task s project_id task_id = Inr t"
    by (auto simp: update_task_def split: sum.splits)
  then have sel: "select_by_id t_id (tasks s) task_id = Some t" and tp: "t_project_id t = project_id"
    by (auto simp: find_project_task_def split: option.splits if_splits)
  have up: "db_update t_id (tasks s) task_id (apply_update_data task_data) =
              Inr (map (\<lambda>x. if t_id x = task_id then apply_update_data task_data x else x) (tasks s),
                   apply_update_data task_data t)"
    using sel by (simp add: db_update_def select_by_id_def)
  from assms t up obtain v where
    "calculate_project_progress
       (s\<lparr>tasks := map (\<lambda>x. if t_id x = task_id then apply_update_data task_data x else x)
                        (tasks s)\<rparr>) project_id = (s', Inr v)"
    by (auto simp: update_task_def split: sum.splits if_splits prod.splits)
  with sel tp show ?thesis by blast
qed

text \<open>
  On the two paths that change a task status the recomputation does run: after a
  successful \<^const>\<open>update_task_status\<close>, or a successful \<^const>\<open>update_task\<close> with a payload
  that has a status, the stored progress of the project is the value that
  \<^const>\<open>calculate_project_progress\<close> computes from the tasks of the new store.
\<close>

lemma status_change_stores_computed_progress:
  "(update_task_status valid_datetime s project_id task_id new_status current_user = (s', Inr t') \<longrightarrow>
      (\<exists>p'. select_by_id p_id (projects s') project_id = Some p' \<and>
            computed_progress s' project_id = Inr (progress p'))) \<and>
   (update_task valid_datetime s project_id task_id task_data current_user = (s', Inr t') \<and>
    tu_status task_data \<noteq> None \<longrightarrow>
      (\<exists>p'. select_by_id p_id (projects s') project_id = Some p' \<and>
            computed_progress s' project_id = Inr (progress p')))"
proof (intro conjI impI)
  assume a: "update_task_status valid_datetime s project_id task_id new_status current_user = (s', Inr t')"
  let ?g = "\<lambda>x. x\<lparr>status := Some (task_status_value new_status)\<rparr>"
  from update_task_status_success [OF a] obtain t v where
    sel: "select_by_id t_id (tasks s) task_id = Some t" and tp: "t_project_id t = project_id" and
    c: "calculate_project_progress
          (s\<lparr>tasks := map (\<lambda>x. if t_id x = task_id then ?g x else x) (tasks s)\<rparr>) project_id = (s', Inr v)"
    by blast
  have ne: "project_tasks (s\<lparr>tasks := map (\<lambda>x. if t_id x = task_id then ?g x else x) (tasks s)\<rparr>)
              project_id \<noteq> []"
    using task_update_nonempty [OF sel tp, of ?g] by simp
  from calculate_project_progress_result [OF c ne]
  show "\<exists>p'. select_by_id p_id (projects s') project_id = Some p' \<and>
             computed_progress s' project_id = Inr (progress p')"
    by auto
next
  assume "update_task valid_datetime s project_id task_id task_data current_user = (s', Inr t') \<and>
          tu_status task_data \<noteq> None"
  then have a: "update_task valid_datetime s project_id task_id task_data current_user = (s', Inr t')"
    and st: "tu_status task_data \<noteq> None" by simp_all
  let ?g = "apply_update_data task_data"
  from update_task_success [OF a st] obtain t v where
    sel: "select_by_id t_id (tasks s) task_id = Some t" and tp: "t_project_id t = project_id" and
    c: "calculate_project_progress
          (s\<lparr>tasks := map (\<lambda>x. if t_id x = task_id then ?g x else x) (tasks s)\<rparr>) project_id = (s', Inr v)"
    by blast
  have ne: "project_tasks (s\<lparr>tasks := map (\<lambda>x. if t_id x = task_id then ?g x else x) (tasks s)\<rparr>)
              project_id \<noteq> []"
    using task_update_nonempty [OF sel tp, of ?g] by (simp add: apply_update_data_keys)
  from calculate_project_progress_result [OF c ne]
  show "\<exists>p'. select_by_id p_id (projects s') project_id = Some p' \<and>
             computed_progress s' project_id = Inr (progress p')"
    by auto
qed

lemma percent_0_1: "percent 0 (Suc 0) = Inr 0"
  by (simp add: float_eval)

lemma team_store_access_carol:
  "verify_project_access team_store ''p1'' ''carol'' = Inr ()"
  using team_store_roles(4)
  by (simp add: verify_project_access_def is_project_member_def select_by_id_def team_store_sel)

lemma update_task_status_team_store:
  "update_task_status datetime_example team_store ''p1'' ''t1'' IN_PROGRESS ''carol'' =
     (team_store
        \<lparr>tasks := [(hd (tasks team_store))\<lparr>status := Some ''in_progress''\<rparr>],
         projects := [\<lparr>p_id = ''p1'', owner_id = ''alice'', progress = 0\<rparr>]\<rparr>,
      Inr ((hd (tasks team_store))\<lparr>status := Some ''in_progress''\<rparr>))"
  by (simp add: update_task_status_def team_store_access_carol find_task_team_store Let_def
      db_update_def calculate_project_progress_def project_tasks_def completed_count_def
      team_store_sel percent_0_1 Task_def datetime_example_def)

lemma update_task_team_store:
  "update_task datetime_example team_store ''p1'' ''t1'' set_todo ''alice'' =
     (team_store
        \<lparr>tasks := [(hd (tasks team_store))\<lparr>status := Some ''todo''\<rparr>],
         projects := [\<lparr>p_id = ''p1'', owner_id = ''alice'', progress = 0\<rparr>]\<rparr>,
      Inr ((hd (tasks team_store))\<lparr>status := Some ''todo''\<rparr>))"
  using team_store_roles(1)
  by (simp add: update_task_def team_store_access find_task_team_store can_edit_task_def
      update_data_empty_def set_todo_def apply_update_data_def
      db_update_def calculate_project_progress_def project_tasks_def completed_count_def
      team_store_sel percent_0_1 Task_def datetime_example_def)

section \<open>Membership mutations\<close>

lemma validate_role_enum: "validate_role (team_member_role_value r) = Inr ()"
  by (cases r) (simp_all add: validate_role_def str_lower_def char_lower_def)

text \<open>
  Claim C8, as amended. Through the team member routes of \<^verbatim>\<open>routes/roles.py\<close> the owner of
  an existing project never gets a membership row and keeps her role. Called by the owner,
  adding a member whose user name is the owner's raises \<open>InvalidData\<close>, updating the
  owner's role raises \<open>InvalidData\<close> and removing the owner raises \<open>CannotRemoveOwner\<close>;
  called by anyone else, each of the three raises \<open>InsufficientPermissions\<close>. In every case
  the store is returned unchanged.
\<close>

theorem owner_membership_guard:
  assumes "select_by_id p_id (projects s) project_id = Some p"
    and "tma_username member_data = owner_id p"
  shows "add_team_member s project_id member_data current_user new_id =
           (s, Inl (if current_user = owner_id p then InvalidData
                    else InsufficientPermissions ''add team members (owner only)'')) \<and>
         update_member_role s project_id (owner_id p) role_data current_user =
           (s, Inl (if current_user = owner_id p then InvalidData
                    else InsufficientPermissions ''update member roles (owner only)'')) \<and>
         remove_team_member s project_id (owner_id p) current_user =
           (s, Inl (if current_user = owner_id p then CannotRemoveOwner
                    else InsufficientPermissions ''remove team members (owner only)''))"
  using assms
  by (simp add: add_team_member_def update_member_role_def remove_team_member_def
      verify_project_exists_def is_project_owner_def validate_role_enum)

lemma team_store_project:
  "select_by_id p_id (projects team_store) ''p1'' =
     Some \<lparr>p_id = ''p1'', owner_id = ''alice'', progress = 100\<rparr>"
  by (simp add: select_by_id_def team_store_sel)

theorem owner_membership_guard_witness:
  "add_team_member team_store ''p1'' add_alice ''alice'' ''m9'' = (team_store, Inl InvalidData) \<and>
   update_member_role team_store ''p1'' ''alice'' add_alice ''alice'' = (team_store, Inl InvalidData) \<and>
   remove_team_member team_store ''p1'' ''alice'' ''alice'' = (team_store, Inl CannotRemoveOwner)"
proof -
  have u: "tma_username add_alice = owner_id \<lparr>p_id = ''p1'', owner_id = ''alice'', progress = 100\<rparr>"
    by (simp add: add_alice_def)
  show ?thesis
    using owner_membership_guard [OF team_store_project u, of "''alice''" "''m9''" add_alice]
    by simp
qed

text \<open>
  The claim as written fails. When bob, a developer, sends the three requests about the
  owner alice, each is refused with \<open>InsufficientPermissions\<close>, not with \<open>InvalidData\<close> or
  \<open>CannotRemoveOwner\<close>. And through the other add-member route, of \<^verbatim>\<open>routes/projects.py\<close>,
  alice gets a membership row in her own project.
\<close>

theorem owner_membership_guard_counterexample:
  "snd (add_team_member team_store ''p1'' add_alice ''bob'' ''m9'') =
     Inl (InsufficientPermissions ''add team members (owner only)'') \<and>
   snd (update_member_role team_store ''p1'' ''alice'' add_alice ''bob'') =
     Inl (InsufficientPermissions ''update member roles (owner only)'') \<and>
   snd (remove_team_member team_store ''p1'' ''alice'' ''bob'') =
     Inl (InsufficientPermissions ''remove team members (owner only)'') \<and>
   team_members (fst (projects_add_team_member team_store ''p1'' add_alice ''alice'' ''m9'')) =
     team_members team_store @
       [\<lparr>tm_id = ''m9'', tm_project_id = ''p1'', tm_username = ''alice'', tm_role = ''manager''\<rparr>]"
proof -
  have u: "tma_username add_alice = owner_id \<lparr>p_id = ''p1'', owner_id = ''alice'', progress = 100\<rparr>"
    by (simp add: add_alice_def)
  have m: "members_of team_store ''p1'' ''alice'' = []"
    by (simp add: members_of_def team_store_def)
  have l: "team_members (fst (projects_add_team_member team_store ''p1'' add_alice ''alice'' ''m9'')) =
     team_members team_store @
       [\<lparr>tm_id = ''m9'', tm_project_id = ''p1'', tm_username = ''alice'', tm_role = ''manager''\<rparr>]"
    by (simp add: projects_add_team_member_def check_project_access_def team_store_project m
        add_alice_def db_insert_def Let_def)
  have a: "add_team_member team_store ''p1'' add_alice ''bob'' ''m9'' =
      (team_store, Inl (InsufficientPermissions ''add team members (owner only)''))"
    by (simp add: add_team_member_def verify_project_exists_def is_project_owner_def team_store_project)
  have b: "update_member_role team_store ''p1'' ''alice'' add_alice ''bob'' =
      (team_store, Inl (InsufficientPermissions ''update member roles (owner only)''))"
    by (simp add: update_member_role_def verify_project_exists_def is_project_owner_def team_store_project)
  have c: "remove_team_member team_store ''p1'' ''alice'' ''bob'' =
      (team_store, Inl (InsufficientPermissions ''remove team members (owner only)''))"
    by (simp add: remove_team_member_def verify_project_exists_def is_project_owner_def team_store_project)
  show ?thesis
    using a b c l by simp
qed














section \<open>Properties of the timeline\<close>

lemma completed_by_date_parseable:
  "list_all (parseable parse) ts \<Longrightarrow>
   completed_by_date parse d ts = Inr (length (filter (spec_counts parse d) ts))"
proof (induction ts)
  case Nil
  then show ?case by simp
next
  case (Cons t ts)
  then show ?case
    by (auto simp: parseable_def spec_counts_def truthy_def split: option.splits)
qed

lemma completed_by_date_unparseable:
  "\<not> list_all (parseable parse) ts \<Longrightarrow> completed_by_date parse d ts = Inl ValueError"
proof (induction ts)
  case Nil
  then show ?case by simp
next
  case (Cons t ts)
  show ?case
  proof (cases "parseable parse t")
    case True
    with Cons have "completed_by_date parse d ts = Inl ValueError" by simp
    with True show ?thesis
      by (auto simp: parseable_def truthy_def split: option.splits)
  next
    case False
    then show ?thesis
      by (auto simp: parseable_def truthy_def split: option.splits)
  qed
qed

lemma timeline_progress_defined: "\<exists>p. timeline_progress c n = Inr p"
  using percent_defined [of n c] by (cases "0 < n") (auto simp: timeline_progress_def)

lemma timeline_loop_series:
  assumes "list_all (parseable parse) ts"
    and "dt_micro current_date = dt_micro end_date"
    and "0 \<le> dt_day current_date" and "dt_day end_date < 3652059"
  shows "timeline_loop parse ts end_date current_date timeline =
           Inr (timeline @ map (timeline_record parse ts) [dt_day current_date .. dt_day end_date])"
  using assms
proof (induction "nat (dt_day end_date + 1 - dt_day current_date)" arbitrary: current_date timeline)
  case 0
  then have "\<not> dt_le current_date end_date" by (simp add: dt_le_def)
  moreover from 0 have "[dt_day current_date .. dt_day end_date] = []" by simp
  ultimately show ?case
    by (subst timeline_loop.simps) simp
next
  case (Suc n)
  let ?c = "length (filter (spec_counts parse (dt_day current_date)) ts)"
  let ?next = "current_date\<lparr>dt_day := dt_day current_date + 1\<rparr>"
  from Suc.hyps(2) have le: "dt_day current_date \<le> dt_day end_date" by simp
  with Suc.prems have dle: "dt_le current_date end_date" by (auto simp: dt_le_def)
  obtain p where p: "timeline_progress ?c (length ts) = Inr p"
    using timeline_progress_defined by blast
  have n: "n = nat (dt_day end_date + 1 - dt_day ?next)"
    using Suc.hyps(2) by simp
  have ih: "timeline_loop parse ts end_date ?next
              (timeline @ [\<lparr>te_date = dt_day current_date, te_completed = ?c,
                             te_total = length ts, te_progress = p\<rparr>]) =
            Inr ((timeline @ [\<lparr>te_date = dt_day current_date, te_completed = ?c,
                             te_total = length ts, te_progress = p\<rparr>]) @
                 map (timeline_record parse ts) [dt_day ?next .. dt_day end_date])"
    using Suc.prems by (intro Suc.hyps(1) [OF n]) simp_all
  have rec: "timeline_record parse ts (dt_day current_date) =
               \<lparr>te_date = dt_day current_date, te_completed = ?c,
                te_total = length ts, te_progress = p\<rparr>"
    using p by (simp add: timeline_record_def Let_def)
  have up: "[dt_day current_date .. dt_day end_date] =
              dt_day current_date # [dt_day ?next .. dt_day end_date]"
    using le by (simp add: upto_rec1)
  show ?case
    using dle le Suc.prems p ih
    by (subst timeline_loop.simps)
       (simp add: completed_by_date_parseable up rec)
qed

lemma timeline_loop_unparseable:
  assumes "\<not> list_all (parseable parse) ts" and "dt_le current_date end_date"
  shows "timeline_loop parse ts end_date current_date timeline = Inl ValueError"
  using assms by (subst timeline_loop.simps) (simp add: completed_by_date_unparseable)

lemma get_project_timeline_series:
  assumes "list_all (parseable parse) (project_tasks s project_id)"
    and "1 \<le> dt_day now - days" and "dt_day now - days \<le> 3652059"
    and "1 \<le> dt_day now" and "dt_day now < 3652059"
  shows "get_project_timeline parse s project_id now days =
           Inr (map (timeline_record parse (project_tasks s project_id))
                  [dt_day now - days .. dt_day now])"
proof -
  have td: "timedelta days = Inr days"
    using assms by (simp add: timedelta_def)
  have st: "dt_add now (- days) = Inr (now\<lparr>dt_day := dt_day now - days\<rparr>)"
    using assms by (simp add: dt_add_def)
  have "timeline_loop parse (project_tasks s project_id) now (now\<lparr>dt_day := dt_day now - days\<rparr>) [] =
          Inr ([] @ map (timeline_record parse (project_tasks s project_id))
                 [dt_day (now\<lparr>dt_day := dt_day now - days\<rparr>) .. dt_day now])"
    using assms by (intro timeline_loop_series) simp_all
  then show ?thesis
    by (simp add: get_project_timeline_def td st)
qed

lemma get_project_timeline_unparseable:
  assumes "\<not> list_all (parseable parse) (project_tasks s project_id)"
    and "0 \<le> days" and "1 \<le> dt_day now - days" and "dt_day now \<le> 3652059"
  shows "get_project_timeline parse s project_id now days = Inl ValueError"
proof -
  have td: "timedelta days = Inr days"
    using assms by (simp add: timedelta_def)
  have st: "dt_add now (- days) = Inr (now\<lparr>dt_day := dt_day now - days\<rparr>)"
    using assms by (simp add: dt_add_def)
  have "dt_le (now\<lparr>dt_day := dt_day now - days\<rparr>) now"
    using assms(2) by (auto simp: dt_le_def)
  from timeline_loop_unparseable [OF assms(1) this]
  show ?thesis
    by (simp add: get_project_timeline_def td st)
qed

text \<open>
  Claim C10. For a look-back of \<open>days \<ge> 0\<close> inside the range of dates,
  \<^const>\<open>get_project_timeline\<close> returns a series exactly when the \<^verbatim>\<open>updated_at\<close> of every
  completed task of the project that is neither null nor empty parses; otherwise the
  \<^verbatim>\<open>ValueError\<close> of the parser leaves the function. The loop of \<^verbatim>\<open>get_team_productivity\<close>
  has the guard: a task whose timestamps do not parse leaves its sums as they are.
\<close>

theorem timeline_needs_parseable_timestamps:
  assumes "0 \<le> days" and "1 \<le> dt_day now - days" and "dt_day now < 3652059"
  shows "((\<exists>timeline. get_project_timeline parse s project_id now days = Inr timeline) \<longleftrightarrow>
          list_all (parseable parse) (project_tasks s project_id)) \<and>
         (\<not> list_all (parseable parse) (project_tasks s project_id) \<longrightarrow>
          get_project_timeline parse s project_id now days = Inl ValueError) \<and>
         (\<forall>c u. created_at t = Some c \<and> updated_at t = Some u \<and> duration c u = None \<longrightarrow>
                sample_step duration t acc = acc)"
proof (cases "list_all (parseable parse) (project_tasks s project_id)")
  case True
  from get_project_timeline_series [OF True, of now days] assms
  have "\<exists>timeline. get_project_timeline parse s project_id now days = Inr timeline"
    by simp
  with True show ?thesis
    by (auto simp: sample_step_def)
next
  case False
  from get_project_timeline_unparseable [OF False, of days now] assms
  have "get_project_timeline parse s project_id now days = Inl ValueError"
    by simp
  with False show ?thesis
    by (auto simp: sample_step_def)
qed

lemma unparseable_store_tasks:
  "\<not> list_all (parseable parse_example) (project_tasks unparseable_store ''p1'')"
  by (simp add: unparseable_store_def project_tasks_def parseable_def parse_example_def)

lemma team_store_parseable:
  "list_all (parseable parse_example) (project_tasks team_store ''p1'')"
  by (simp add: team_store_sel project_tasks_def parseable_def parse_example_def)

theorem timeline_needs_parseable_timestamps_witness:
  "get_project_timeline parse_example unparseable_store ''p1'' now_example 2 = Inl ValueError \<and>
   (\<exists>timeline. get_project_timeline parse_example team_store ''p1'' now_example 2 = Inr timeline) \<and>
   sample_step (\<lambda>c u. None) (hd (tasks unparseable_store)) (7, 3) = (7, 3)"
proof -
  have d: "(0::int) \<le> 2" by simp
  have r: "1 \<le> dt_day now_example - 2" by (simp add: now_example_def)
  have m: "dt_day now_example < 3652059" by (simp add: now_example_def)
  have c: "created_at (hd (tasks unparseable_store)) = Some ''2024-01-01T00:00:00Z''"
    and u: "updated_at (hd (tasks unparseable_store)) = Some ''yesterday''"
    by (simp_all add: unparseable_store_def)
  note a = timeline_needs_parseable_timestamps [OF d r m, of parse_example unparseable_store "''p1''"
      "hd (tasks unparseable_store)" "\<lambda>c u. None" "(7, 3)"]
  note b = timeline_needs_parseable_timestamps [OF d r m, of parse_example team_store "''p1''"
      "hd (tasks unparseable_store)" "\<lambda>c u. None" "(7, 3)"]
  from a unparseable_store_tasks
  have 1: "get_project_timeline parse_example unparseable_store ''p1'' now_example 2 = Inl ValueError"
    by blast
  from b team_store_parseable
  have 2: "\<exists>timeline. get_project_timeline parse_example team_store ''p1'' now_example 2 = Inr timeline"
    by blast
  from a c u have 3: "sample_step (\<lambda>c u. None) (hd (tasks unparseable_store)) (7, 3) = (7, 3)"
    by blast
  from 1 2 3 show ?thesis by blast
qed

section \<open>Percentages at 29 of 50\<close>

lemma percent_29_50: "percent 29 50 = Inr 57"
  by (simp add: float_eval)

lemma numbered_tasks_length: "length (numbered_tasks st lo hi) = hi - lo"
  by (simp add: numbered_tasks_def)

lemma numbered_tasks_project:
  "filter (\<lambda>t. t_project_id t = ''p1'') (numbered_tasks st lo hi) = numbered_tasks st lo hi"
  unfolding numbered_tasks_def by (induction "[lo..<hi]" arbitrary: lo) (simp_all add: numbered_task_def filter_map comp_def)

lemma numbered_tasks_completed:
  "filter (\<lambda>t. status t = Some ''completed'') (numbered_tasks st lo hi) =
     (if st = ''completed'' then numbered_tasks st lo hi else [])"
  by (simp add: numbered_tasks_def filter_map comp_def numbered_task_def)

lemma numbered_task_ids: "inj (\<lambda>i. t_id (numbered_task st i))"
  by (rule injI) (simp add: numbered_task_def)

lemma fifty_store_sel:
  "projects fifty_store = [\<lparr>p_id = ''p1'', owner_id = ''alice'', progress = 0\<rparr>]"
  "tasks fifty_store = numbered_tasks ''completed'' 0 29 @ numbered_tasks ''todo'' 29 50"
  by (simp_all add: fifty_store_def)

lemma fifty_store_tasks:
  "project_tasks fifty_store ''p1'' = tasks fifty_store"
  "length (tasks fifty_store) = 50"
  "completed_count (tasks fifty_store) = 29"
  by (simp_all add: project_tasks_def completed_count_def fifty_store_sel numbered_tasks_project
      numbered_tasks_completed numbered_tasks_length)

lemma fifty_store_nonempty: "tasks fifty_store \<noteq> []"
  using fifty_store_tasks(2) by auto

text \<open>
  Claim C5 fails on the code: with 29 of 50 tasks completed the completion percentage is
  \<open>\<lfloor>100 * 29 / 50\<rfloor> = 58\<close>, and \<^const>\<open>calculate_project_progress\<close> returns and stores 57. The
  quotient \<open>29 / 50\<close> is rounded to the float below 0.58, its product with 100 to the float
  below 58, and \<^verbatim>\<open>int\<close> truncates.
\<close>

theorem calculate_project_progress_29_of_50:
  "calculate_project_progress fifty_store ''p1'' =
     (fifty_store\<lparr>projects := [\<lparr>p_id = ''p1'', owner_id = ''alice'', progress = 57\<rparr>]\<rparr>, Inr 57) \<and>
   completed_count (project_tasks fifty_store ''p1'') = 29 \<and>
   length (project_tasks fifty_store ''p1'') = 50 \<and>
   (100 * 29) div 50 = (58 :: int)"
proof -
  have "calculate_project_progress fifty_store ''p1'' =
     (fifty_store\<lparr>projects := [\<lparr>p_id = ''p1'', owner_id = ''alice'', progress = 57\<rparr>]\<rparr>, Inr 57)"
    using fifty_store_nonempty
    by (simp add: calculate_project_progress_def fifty_store_tasks percent_29_50 db_update_def
        fifty_store_sel(1))
  then show ?thesis
    by (simp add: fifty_store_tasks)
qed

lemma numbered_tasks_parseable:
  "list_all (parseable parse_example) (numbered_tasks st lo hi)"
  by (simp add: numbered_tasks_def list_all_iff parseable_def parse_example_def numbered_task_def)

lemma numbered_tasks_counted:
  "filter (spec_counts parse_example 738890) (numbered_tasks st lo hi) =
     (if st = ''completed'' then numbered_tasks st lo hi else [])"
  by (simp add: numbered_tasks_def filter_map comp_def spec_counts_def parse_example_def
      numbered_task_def)

text \<open>
  Claim C7 fails on the code at the same place. On 5 January 2024, with \<open>days = 0\<close>, the
  timeline of the project has one record, for that day, with 29 completed tasks of 50;
  its progress is 57, and \<open>\<lfloor>100 * 29 / 50\<rfloor> = 58\<close>.
\<close>

theorem get_project_timeline_29_of_50:
  "get_project_timeline parse_example fifty_store ''p1'' now_example 0 =
     Inr [\<lparr>te_date = 738890, te_completed = 29, te_total = 50, te_progress = 57\<rparr>] \<and>
   (100 * 29) div 50 = (58 :: int)"
proof -
  have ok: "list_all (parseable parse_example) (project_tasks fifty_store ''p1'')"
    by (simp add: fifty_store_tasks fifty_store_sel numbered_tasks_parseable)
  have rec: "timeline_record parse_example (tasks fifty_store) 738890 =
               \<lparr>te_date = 738890, te_completed = 29, te_total = 50, te_progress = 57\<rparr>"
    by (simp add: timeline_record_def timeline_progress_def fifty_store_sel numbered_tasks_counted
        numbered_tasks_length percent_29_50)
  have "get_project_timeline parse_example fifty_store ''p1'' now_example 0 =
          Inr (map (timeline_record parse_example (project_tasks fifty_store ''p1''))
                 [dt_day now_example - 0 .. dt_day now_example])"
    using ok by (rule get_project_timeline_series) (simp_all add: now_example_def)
  then show ?thesis
    by (simp add: now_example_def fifty_store_tasks rec)
qed

text \<open>
  The same truncation reaches the stored progress on the paths that do recompute it: when
  a successful status update leaves a project with 29 of its 50 tasks completed, the
  stored progress is 57, and the percentage of the specification is 58.
\<close>

lemma status_change_29_of_50:
  assumes "update_task_status valid_datetime s project_id task_id new_status current_user =
             (s', Inr t')"
    and "length (project_tasks s' project_id) = 50"
    and "completed_count (project_tasks s' project_id) = 29"
  shows "\<exists>p'. select_by_id p_id (projects s') project_id = Some p' \<and> progress p' = 57 \<and>
              spec_progress s' project_id = 58"
proof -
  from status_change_stores_computed_progress
         [THEN conjunct1, THEN mp, OF assms(1)]
  obtain p' where p': "select_by_id p_id (projects s') project_id = Some p'"
    and c: "computed_progress s' project_id = Inr (progress p')"
    by blast
  from assms(2) have ne: "project_tasks s' project_id \<noteq> []"
    by auto
  from c ne have "progress p' = 57"
    by (simp add: computed_progress_def Let_def assms(2) assms(3) percent_29_50)
  moreover from ne have "spec_progress s' project_id = 58"
    by (simp add: spec_progress_def Let_def assms(2) assms(3))
  ultimately show ?thesis
    using p' by simp
qed

section \<open>Bounds of the completion percentage\<close>

lemma bitlen_mono: "a \<le> b \<Longrightarrow> bitlen a \<le> bitlen b"
proof (induction b arbitrary: a rule: bitlen.induct)
  case (1 n)
  show ?case
  proof (cases "a = 0")
    case True
    then show ?thesis by (simp add: bitlen_0)
  next
    case False
    with 1 have n: "n \<noteq> 0" by simp
    from 1(2) have "a div 2 \<le> n div 2" by (rule div_le_mono)
    with 1(1) [OF n] have "bitlen (a div 2) \<le> bitlen (n div 2)" by simp
    with False n show ?thesis
      by (subst bitlen.simps, subst (2) bitlen.simps) simp
  qed
qed

lemma bitlen_bound: "n < 2 ^ j \<Longrightarrow> bitlen n \<le> j"
proof (induction j arbitrary: n)
  case 0
  then show ?case by (simp add: bitlen_0)
next
  case (Suc j)
  then have "n div 2 < 2 ^ j" by auto
  with Suc.IH have "bitlen (n div 2) \<le> j" by simp
  then show ?case
    by (subst bitlen.simps) simp
qed

lemma round_mantissa_le:
  assumes "0 < D" and "N \<le> C * D"
  shows "round_mantissa N D \<le> C"
proof -
  have q: "N div D \<le> C"
    using assms by (metis div_le_mono div_mult_self_is_m)
  show ?thesis
  proof (cases "N div D = C")
    case True
    have "N = D * (N div D) + N mod D" by simp
    with True assms(2) have "N mod D = 0"
      by (metis add_diff_cancel_left' diff_is_0_eq mult.commute)
    with assms(1) True show ?thesis
      by (simp add: round_mantissa_def)
  next
    case False
    with q have "N div D + 1 \<le> C" by simp
    with q show ?thesis
      by (simp add: round_mantissa_def Let_def)
  qed
qed

lemma round_exponent_le: "round_exponent n d \<le> int (bitlen n) - int (bitlen d) - 52"
  by (simp add: round_exponent_def Let_def)

lemma float_hundred: "float_of_nat 100 = \<lparr>mantissa = 7036874417766400, exponent = - 46\<rparr>"
  by (simp add: float_eval)

lemma round_ratio_le_one:
  assumes "c \<le> t" and "0 < t"
  shows "\<exists>k. exponent (round_ratio c t) = - int k \<and> mantissa (round_ratio c t) \<le> 2 ^ k"
proof -
  define e where "e = round_exponent c t"
  have "int (bitlen c) \<le> int (bitlen t)"
    using bitlen_mono [OF assms(1)] by simp
  with round_exponent_le [of c t] have neg: "e \<le> 0"
    by (simp add: e_def)
  define k where "k = nat (- e)"
  from neg have ek: "e = - int k" by (simp add: k_def)
  have den: "scaled_den t e = t"
    using neg by (simp add: scaled_den_def)
  have num: "scaled_num c e = c * 2 ^ k"
    by (simp add: scaled_num_def k_def)
  have "c * 2 ^ k \<le> 2 ^ k * t"
    using assms(1) by (simp add: mult.commute)
  with assms(2) have "round_mantissa (c * 2 ^ k) t \<le> 2 ^ k"
    by (intro round_mantissa_le) simp_all
  then show ?thesis
    using ek den num by (auto simp: round_ratio_def Let_def e_def [symmetric])
qed

lemma float_mul_hundred_le:
  assumes e: "exponent x = - int k" and m: "mantissa x \<le> 2 ^ k"
  shows "0 \<le> py_int (float_mul x (float_of_nat 100)) \<and>
         py_int (float_mul x (float_of_nat 100)) \<le> 100"
proof (cases "mantissa x = 0")
  case True
  then show ?thesis
    by (simp add: float_mul_def py_int_def float_zero_def)
next
  case False
  define n where "n = mantissa x * 7036874417766400"
  define e2 where "e2 = round_exponent n (Suc 0)"
  define m2 where "m2 = round_mantissa (scaled_num n e2) (scaled_den (Suc 0) e2)"
  have c46: "(7036874417766400::nat) = 100 * 2 ^ 46" by simp
  have "n \<le> 2 ^ k * (100 * 2 ^ 46)"
    unfolding n_def c46 using m by (rule mult_le_mono1)
  then have nb: "n \<le> 100 * 2 ^ (k + 46)"
    by (simp add: power_add mult.assoc mult.left_commute)
  have "(100::nat) * 2 ^ (k + 46) < 2 ^ 7 * 2 ^ (k + 46)"
    by (intro mult_strict_right_mono) simp_all
  also have "\<dots> = 2 ^ (k + 53)"
    by (simp add: power_add)
  finally have "n < 2 ^ (k + 53)"
    using nb by simp
  then have "bitlen n \<le> k + 53" by (rule bitlen_bound)
  with round_exponent_le [of n "Suc 0"] have e2k: "e2 \<le> int k"
    by (simp add: e2_def bitlen_1)
  define j where "j = nat (int k + 46 - e2)"
  from e2k have je: "int j = int k + 46 - e2" and jpos: "0 < j"
    by (simp_all add: j_def)
  have bound: "scaled_num n e2 \<le> 100 * 2 ^ j * scaled_den (Suc 0) e2"
  proof (cases "0 \<le> e2")
    case True
    then have "j + nat e2 = k + 46"
      using je by simp
    then have "(2::nat) ^ j * 2 ^ nat e2 = 2 ^ (k + 46)"
      by (simp add: power_add [symmetric])
    with True nb show ?thesis
      by (simp add: scaled_num_def scaled_den_def mult.assoc)
  next
    case False
    then have "j = (k + 46) + nat (- e2)"
      using je by simp
    then have "(2::nat) ^ j = 2 ^ (k + 46) * 2 ^ nat (- e2)"
      by (simp add: power_add)
    with False nb show ?thesis
      by (simp add: scaled_num_def scaled_den_def mult.assoc [symmetric])
  qed
  have "0 < scaled_den (Suc 0) e2"
    by (simp add: scaled_den_def)
  from round_mantissa_le [OF this bound] have "m2 \<le> 100 * 2 ^ j"
    by (simp add: m2_def)
  then have "m2 div 2 ^ j \<le> (100 * 2 ^ j) div 2 ^ j"
    by (rule div_le_mono)
  then have res: "m2 div 2 ^ j \<le> 100"
    by simp
  have rr: "round_ratio n (Suc 0) = \<lparr>mantissa = m2, exponent = e2\<rparr>"
    unfolding round_ratio_def Let_def m2_def e2_def by (rule refl)
  have "n \<noteq> 0"
    using False by (simp add: n_def)
  then have "float_mul x (float_of_nat 100) =
               (round_ratio n (Suc 0))\<lparr>exponent := exponent (round_ratio n (Suc 0)) + exponent x + (- 46)\<rparr>"
    by (simp add: float_mul_def float_hundred Let_def n_def)
  then have mul: "float_mul x (float_of_nat 100) = \<lparr>mantissa = m2, exponent = - int j\<rparr>"
    using e je by (simp add: rr)
  show ?thesis
    using res jpos by (simp add: mul py_int_def)
qed

lemma percent_range:
  assumes "c \<le> t" and "0 < t"
  shows "\<exists>v. percent c t = Inr v \<and> 0 \<le> v \<and> v \<le> 100"
proof (cases "c = 0")
  case True
  with assms(2) show ?thesis
    by (simp add: percent_def py_truediv_def float_mul_def float_zero_def py_int_def)
next
  case False
  from round_ratio_le_one [OF assms] obtain k where
    "exponent (round_ratio c t) = - int k" and "mantissa (round_ratio c t) \<le> 2 ^ k"
    by blast
  from float_mul_hundred_le [OF this] False assms(2) show ?thesis
    by (simp add: percent_def py_truediv_def)
qed

lemma percent_all: "0 < n \<Longrightarrow> percent n n = Inr 100"
proof -
  assume n: "0 < n"
  have e: "round_exponent n n = - 52"
    using n by (simp add: round_exponent_def scaled_num_def scaled_den_def)
  have "round_mantissa (n * 2 ^ 52) n = 2 ^ 52"
    using n by (simp add: round_mantissa_def)
  then have "round_ratio n n = \<lparr>mantissa = 2 ^ 52, exponent = - 52\<rparr>"
    using n by (simp add: round_ratio_def e scaled_num_def scaled_den_def)
  moreover have "py_int (float_mul \<lparr>mantissa = 2 ^ 52, exponent = - 52\<rparr> (float_of_nat 100)) = 100"
    by (simp add: float_eval)
  ultimately show ?thesis
    using n by (simp add: percent_def py_truediv_def)
qed

lemma completed_count_le: "completed_count ts \<le> length ts"
  by (simp add: completed_count_def)

lemma completed_count_all:
  "list_all (\<lambda>t. status t = Some ''completed'') ts \<Longrightarrow> completed_count ts = length ts"
  by (simp add: completed_count_def list_all_iff)

lemma computed_progress_range:
  "\<exists>v. computed_progress s project_id = Inr v \<and> 0 \<le> v \<and> v \<le> 100"
proof (cases "project_tasks s project_id = []")
  case True
  then show ?thesis by (simp add: computed_progress_def Let_def)
next
  case False
  then have "0 < length (project_tasks s project_id)" by simp
  from percent_range [OF completed_count_le this] False show ?thesis
    by (simp add: computed_progress_def Let_def)
qed

lemma calculate_project_progress_value:
  "snd (calculate_project_progress s project_id) = Inr v \<Longrightarrow> computed_progress s project_id = Inr v"
  by (auto simp: calculate_project_progress_def computed_progress_def Let_def
      split: if_splits sum.splits prod.splits)

lemma map_progress_idem:
  "map (\<lambda>x. if p_id x = i then x\<lparr>progress := v\<rparr> else x)
     (map (\<lambda>x. if p_id x = i then x\<lparr>progress := v\<rparr> else x) rows) =
   map (\<lambda>x. if p_id x = i then x\<lparr>progress := v\<rparr> else x) rows"
  by (induction rows) simp_all

text \<open>
  What holds of \<^const>\<open>calculate_project_progress\<close>: a project without tasks gets 0 and no
  write; a project whose tasks are all completed gets 100; every returned value lies
  between 0 and 100; and computing again, with the tasks unchanged, returns the same value
  and leaves the store as the first computation left it.
\<close>

lemma calculate_project_progress_properties:
  "(project_tasks s project_id = [] \<longrightarrow> calculate_project_progress s project_id = (s, Inr 0)) \<and>
   (project_tasks s project_id \<noteq> [] \<and>
    list_all (\<lambda>t. status t = Some ''completed'') (project_tasks s project_id) \<and>
    select_by_id p_id (projects s) project_id \<noteq> None \<longrightarrow>
      snd (calculate_project_progress s project_id) = Inr 100) \<and>
   (snd (calculate_project_progress s project_id) = Inr v \<longrightarrow> 0 \<le> v \<and> v \<le> 100) \<and>
   calculate_project_progress (fst (calculate_project_progress s project_id)) project_id =
     calculate_project_progress s project_id"
proof (intro conjI impI)
  assume "project_tasks s project_id = []"
  then show "calculate_project_progress s project_id = (s, Inr 0)"
    by (simp add: calculate_project_progress_def Let_def)
next
  assume a: "project_tasks s project_id \<noteq> [] \<and>
    list_all (\<lambda>t. status t = Some ''completed'') (project_tasks s project_id) \<and>
    select_by_id p_id (projects s) project_id \<noteq> None"
  then have "percent (completed_count (project_tasks s project_id)) (length (project_tasks s project_id)) =
             Inr 100"
    by (simp add: completed_count_all percent_all)
  with a show "snd (calculate_project_progress s project_id) = Inr 100"
    by (auto simp: calculate_project_progress_def db_update_def select_by_id_def Let_def
        split: option.splits)
next
  assume "snd (calculate_project_progress s project_id) = Inr v"
  then have "computed_progress s project_id = Inr v"
    by (rule calculate_project_progress_value)
  with computed_progress_range [of s project_id] show "0 \<le> v"
    by simp
next
  assume "snd (calculate_project_progress s project_id) = Inr v"
  then have "computed_progress s project_id = Inr v"
    by (rule calculate_project_progress_value)
  with computed_progress_range [of s project_id] show "v \<le> 100"
    by simp
next
  show "calculate_project_progress (fst (calculate_project_progress s project_id)) project_id =
          calculate_project_progress s project_id"
  proof (cases "project_tasks s project_id = []")
    case True
    then show ?thesis by (simp add: calculate_project_progress_def Let_def)
  next
    case False
    then obtain w where w: "percent (completed_count (project_tasks s project_id))
                              (length (project_tasks s project_id)) = Inr w"
      using percent_defined [of "length (project_tasks s project_id)"] by auto
    show ?thesis
    proof (cases "find (\<lambda>r. p_id r = project_id) (projects s)")
      case None
      with False w show ?thesis
        by (simp add: calculate_project_progress_def db_update_def Let_def)
    next
      case (Some p)
      let ?s1 = "s\<lparr>projects := map (\<lambda>x. if p_id x = project_id then x\<lparr>progress := w\<rparr> else x)
                                     (projects s)\<rparr>"
      have first: "calculate_project_progress s project_id = (?s1, Inr w)"
        using False w Some by (simp add: calculate_project_progress_def db_update_def Let_def)
      have t1: "project_tasks ?s1 project_id = project_tasks s project_id"
        by (simp add: project_tasks_def)
      have f1: "find (\<lambda>r. p_id r = project_id)
                  (map (\<lambda>x. if p_id x = project_id then x\<lparr>progress := w\<rparr> else x) (projects s)) =
                Some (p\<lparr>progress := w\<rparr>)"
        using Some by (simp add: find_map_update)
      have "calculate_project_progress ?s1 project_id = (?s1, Inr w)"
        using False w by (simp add: calculate_project_progress_def t1 db_update_def f1 map_progress_idem Let_def)
      with first show ?thesis by simp
    qed
  qed
qed

end
